theory Spec2Isabelle
  imports Main "HOL-Library.Word"
begin

section \<open>JavaScript values, exceptions and the built-ins the settlement engine uses\<close>

text \<open>
  The payment header reaches the engine as the result of \<^verbatim>\<open>JSON.parse\<close> (or as an already
  structured object), so its fields are arbitrary JSON values. Numbers are the integral
  ones (\<open>JNum\<close>), the two infinities and \<open>NaN\<close>; strings are byte strings (ASCII); arrays
  and fractional numbers are outside the model. An object is an association list, read by
  its first binding of a key.
\<close>

datatype jsval =
    JUndefined
  | JNull
  | JBool bool
  | JNum int
  | JInfinity
  | JNegInfinity
  | JNaN
  | JStr string
  | JObj "(string \<times> jsval) list"

text \<open>
  A thrown value is an \<^verbatim>\<open>Error\<close> created with a message, a built-in error raised by the
  runtime (an \<^verbatim>\<open>Error\<close> too, whose message text is the engine's), or any other thrown
  value, which is not an instance of \<^verbatim>\<open>Error\<close>.
\<close>

datatype rt_error = TypeError | SyntaxError | RangeError

datatype exn = Error string | Builtin rt_error | Thrown jsval

definition bnd :: "exn + 'a \<Rightarrow> ('a \<Rightarrow> exn + 'b) \<Rightarrow> exn + 'b" where
  "bnd m f = (case m of Inl e \<Rightarrow> Inl e | Inr x \<Rightarrow> f x)"

fun truthy :: "jsval \<Rightarrow> bool" where
  "truthy JUndefined = False"
| "truthy JNull = False"
| "truthy (JBool b) = b"
| "truthy (JNum n) = (n \<noteq> 0)"
| "truthy JInfinity = True"
| "truthy JNegInfinity = True"
| "truthy JNaN = False"
| "truthy (JStr s) = (s \<noteq> [])"
| "truthy (JObj kvs) = True"

fun nullish :: "jsval \<Rightarrow> bool" where
  "nullish JUndefined = True"
| "nullish JNull = True"
| "nullish _ = False"

text \<open>
  \<open>propOf x k\<close> is the read \<^verbatim>\<open>x.k\<close> on a value that is neither \<^verbatim>\<open>null\<close> nor
  \<^verbatim>\<open>undefined\<close>: an own property of an object, \<^verbatim>\<open>undefined\<close> otherwise (none of the keys
  the engine reads is a prototype property). \<open>getp\<close> is the unguarded read, which raises a
  \<^verbatim>\<open>TypeError\<close> on \<^verbatim>\<open>null\<close> and \<^verbatim>\<open>undefined\<close>.
\<close>

fun propOf :: "jsval \<Rightarrow> string \<Rightarrow> jsval" where
  "propOf (JObj kvs) k = (case map_of kvs k of None \<Rightarrow> JUndefined | Some x \<Rightarrow> x)"
| "propOf _ k = JUndefined"

definition getp :: "jsval \<Rightarrow> string \<Rightarrow> exn + jsval" where
  "getp x k = (if nullish x then Inl (Builtin TypeError) else Inr (propOf x k))"

text \<open>\<^verbatim>\<open>typeof x === 'object'\<close> holds of objects and of \<^verbatim>\<open>null\<close>.\<close>

fun typeof_object :: "jsval \<Rightarrow> bool" where
  "typeof_object (JObj kvs) = True"
| "typeof_object JNull = True"
| "typeof_object _ = False"

definition startsWith :: "string \<Rightarrow> string \<Rightarrow> bool" where
  "startsWith s p = (take (length p) s = p)"

text \<open>\<^verbatim>\<open>s.slice(a, b)\<close> for \<open>0 \<le> a \<le> b\<close>; both ends are clamped to the length.\<close>

definition slice :: "string \<Rightarrow> nat \<Rightarrow> nat \<Rightarrow> string" where
  "slice s a b = take (b - a) (drop a s)"

subsection \<open>Numbers\<close>

text \<open>
  A Number that holds an integer is a double: an integer of more than 53 significant bits
  is rounded to the nearest one that has 53, ties to the even one, and a magnitude of
  \<open>2 ^ 1024\<close> or more is an infinity. \<open>Number_of_bigint\<close> is \<^verbatim>\<open>Number(b)\<close> of a BigInt.
\<close>

datatype number = Finite int | PlusInfinity | MinusInfinity

fun bit_length :: "nat \<Rightarrow> nat" where
  "bit_length n = (if n = 0 then 0 else Suc (bit_length (n div 2)))"

definition round_to_double :: "nat \<Rightarrow> nat" where
  "round_to_double m =
     (let e = bit_length m - 53;
          q = m div 2 ^ e;
          r = m mod 2 ^ e;
          half = 2 ^ e div 2
      in if e = 0 then m
         else if half < r \<or> (r = half \<and> odd q) then (q + 1) * 2 ^ e
         else q * 2 ^ e)"

definition Number_of_bigint :: "int \<Rightarrow> number" where
  "Number_of_bigint b =
     (let m = round_to_double (nat \<bar>b\<bar>)
      in if 2 ^ 1024 \<le> m then (if b < 0 then MinusInfinity else PlusInfinity)
         else Finite (if b < 0 then - int m else int m))"

fun jsval_of_number :: "number \<Rightarrow> jsval" where
  "jsval_of_number (Finite n) = JNum n"
| "jsval_of_number PlusInfinity = JInfinity"
| "jsval_of_number MinusInfinity = JNegInfinity"

text \<open>\<^verbatim>\<open>x >= y\<close> for a Number \<open>x\<close> and a count \<open>y\<close> that may be \<^verbatim>\<open>undefined\<close>.\<close>

fun number_ge :: "number \<Rightarrow> nat option \<Rightarrow> bool" where
  "number_ge x None = False"
| "number_ge (Finite n) (Some k) = (int k \<le> n)"
| "number_ge PlusInfinity (Some k) = True"
| "number_ge MinusInfinity (Some k) = False"

subsection \<open>parseInt\<close>

definition is_ws :: "char \<Rightarrow> bool" where
  "is_ws c = (c \<in> {CHR 0x09, CHR 0x0A, CHR 0x0B, CHR 0x0C, CHR 0x0D, CHR 0x20})"

definition digit_val :: "char \<Rightarrow> nat option" where
  "digit_val c =
     (let n = (of_char c :: nat) in
      if 48 \<le> n \<and> n \<le> 57 then Some (n - 48)
      else if 97 \<le> n \<and> n \<le> 122 then Some (n - 87)
      else if 65 \<le> n \<and> n \<le> 90 then Some (n - 55)
      else None)"

text \<open>The longest prefix of digits below the radix.\<close>

fun radix_digits :: "nat \<Rightarrow> string \<Rightarrow> nat list" where
  "radix_digits R [] = []"
| "radix_digits R (c # cs) =
     (case digit_val c of
        Some d \<Rightarrow> if d < R then d # radix_digits R cs else []
      | None \<Rightarrow> [])"

definition digits_value :: "nat \<Rightarrow> nat list \<Rightarrow> nat" where
  "digits_value R ds = foldl (\<lambda>a d. a * R + d) 0 ds"

text \<open>
  \<^verbatim>\<open>parseInt(str, radix)\<close>, with \<open>None\<close> for an absent radix: leading white space is
  dropped, then a sign, then (for radix 16 or no radix) a \<^verbatim>\<open>0x\<close> prefix; the value is that of
  the longest digit prefix, rounded to a double, and \<open>NaN\<close> when there is no digit.
\<close>

definition parseInt :: "string \<Rightarrow> nat option \<Rightarrow> jsval" where
  "parseInt str radix =
     (let S0 = dropWhile is_ws str;
          neg = (take 1 S0 = ''-'');
          S1 = (if take 1 S0 = ''+'' \<or> take 1 S0 = ''-'' then drop 1 S0 else S0);
          R0 = (case radix of None \<Rightarrow> 0 | Some k \<Rightarrow> k)
      in if R0 \<noteq> 0 \<and> (R0 < 2 \<or> 36 < R0) then JNaN
         else
           let stripPrefix = (R0 = 0 \<or> R0 = 16);
               R1 = (if R0 = 0 then 10 else R0);
               hasPrefix = (stripPrefix \<and> (take 2 S1 = ''0x'' \<or> take 2 S1 = ''0X''));
               S2 = (if hasPrefix then drop 2 S1 else S1);
               R = (if hasPrefix then 16 else R1);
               ds = radix_digits R S2
           in if ds = [] then JNaN
              else jsval_of_number
                     (Number_of_bigint ((if neg then - 1 else 1) * int (digits_value R ds))))"

subsection \<open>Lookups in object literals\<close>

text \<open>
  The configuration tables are object literals indexed by a network name. Such a lookup
  finds the table's own entry, or else a member inherited from \<^verbatim>\<open>Object.prototype\<close>, which is
  truthy and has none of the fields the engine reads, or else \<^verbatim>\<open>undefined\<close> (\<open>None\<close>).
\<close>

datatype 'a entry = Own 'a | Inherited

definition object_prototype_keys :: "string list" where
  "object_prototype_keys =
     [''constructor'', ''__defineGetter__'', ''__defineSetter__'', ''hasOwnProperty'',
      ''__lookupGetter__'', ''__lookupSetter__'', ''isPrototypeOf'', ''propertyIsEnumerable'',
      ''toString'', ''valueOf'', ''__proto__'', ''toLocaleString'']"

definition index_object :: "(string \<times> 'a) list \<Rightarrow> string \<Rightarrow> 'a entry option" where
  "index_object table k =
     (case map_of table k of
        Some x \<Rightarrow> Some (Own x)
      | None \<Rightarrow> if k \<in> set object_prototype_keys then Some Inherited else None)"

section \<open>The environment: runtime built-ins and the EVM gateway\<close>

text \<open>
  Everything the engine calls but does not define is a field of the environment, so that
  every statement below holds for whatever these collaborators answer, including a raised
  exception.
\<close>

datatype clock_site = AtHandler | AtVerify | AtSettle | AtSimulate | AtCache

datatype receipt_status = Success | Reverted

record receipt =
  receipt_status :: receipt_status
  receipt_blockNumber :: int

text \<open>A contract write, as the wallet client receives it.\<close>

datatype tx_call =
    TransferWithAuthorization "string entry" jsval jsval int int int string jsval jsval jsval
  | TransferFrom "string entry" jsval jsval int

text \<open>The fields of a validated request that the engine reads.\<close>

record payment_requirements =
  pr_scheme :: string
  pr_network :: string
  pr_asset :: string
  pr_payTo :: string
  pr_maxAmountRequired :: string

record request =
  req_paymentHeader :: jsval
  req_paymentRequirements :: payment_requirements
  req_agentId :: jsval

datatype facilitator_mode = Managed | Decentralized

datatype cre_mode = Simulate | Remote

record bridge_config =
  cfg_mode :: facilitator_mode
  cfg_creMode :: cre_mode
  cfg_creWorkflowUrl :: "string option"
  cfg_chaoschainEnabled :: bool

datatype route = VerifyRoute | SettleRoute

record env =
  engine_message :: "rt_error \<Rightarrow> string"
  decode_header :: "string \<Rightarrow> exn + jsval"
  BigInt :: "jsval \<Rightarrow> exn + int"
  to_str :: "jsval \<Rightarrow> exn + string"
  js_less :: "jsval \<Rightarrow> jsval \<Rightarrow> exn + bool"
  date_now :: "clock_site \<Rightarrow> int"
  random_suffix :: string
  formatUnits :: "int \<Rightarrow> int \<Rightarrow> string"
  privateKeyToAccount :: "exn + string"
  treasury_address :: jsval
  createPublicClient :: "string \<Rightarrow> exn + unit"
  createWalletClient :: "string \<Rightarrow> exn + unit"
  read_decimals :: "string entry \<Rightarrow> exn + int"
  read_balanceOf :: "string entry \<Rightarrow> jsval \<Rightarrow> exn + int"
  read_authorizationState :: "string entry \<Rightarrow> jsval \<Rightarrow> string \<Rightarrow> exn + bool"
  read_allowance :: "string entry \<Rightarrow> jsval \<Rightarrow> string \<Rightarrow> exn + int"
  writeContract :: "tx_call list \<Rightarrow> tx_call \<Rightarrow> exn + string"
  waitForTransactionReceipt :: "tx_call list \<Rightarrow> string \<Rightarrow> nat option \<Rightarrow> exn + receipt"
  merchant_rejects_first :: bool
  getTransactionReceipt :: "string \<Rightarrow> string \<Rightarrow> exn + receipt"
  getBlockNumber :: "string \<Rightarrow> string \<Rightarrow> exn + int"
  supabase_configured :: bool
  select_succeeds :: bool
  iso_now :: "string \<Rightarrow> string"
  config :: bridge_config
  validate_verify :: "jsval \<Rightarrow> exn + request"
  validate_settle :: "jsval \<Rightarrow> exn + request"
  parse_amount :: "string \<Rightarrow> exn + nat"
  format_human :: "nat \<Rightarrow> string"
  fee_symbol :: string
  linkAgentIdentity :: "jsval \<Rightarrow> string \<Rightarrow> request \<Rightarrow> int \<Rightarrow> exn + (string \<times> string) option"
  derive_fingerprint :: "route \<Rightarrow> jsval \<Rightarrow> string"
  cache_ttl :: int

text \<open>
  \<^item> \<open>engine_message\<close> is the message text the engine gives a built-in error;
    \<open>decode_header\<close> is \<^verbatim>\<open>JSON.parse(Buffer.from(h, 'base64').toString())\<close>; \<open>to_str\<close> is
    the conversion a template literal applies; \<open>js_less a b\<close> is \<^verbatim>\<open>a < b\<close>.
  \<^item> \<open>date_now\<close> is what \<^verbatim>\<open>Date.now()\<close> returns at each of its call sites (every site is
    reached at most once in a run), \<open>iso_now i\<close> what \<^verbatim>\<open>new Date().toISOString()\<close> returns
    while the confirmer handles the record with id \<open>i\<close>, \<open>random_suffix\<close> is
    \<^verbatim>\<open>Math.random().toString(36).slice(2, 9)\<close>.
  \<^item> \<open>privateKeyToAccount\<close> is the facilitator's address derived from the configured key,
    \<open>treasury_address\<close> the variable \<^verbatim>\<open>TREASURY_ADDRESS\<close>; \<open>createPublicClient\<close> and
    \<open>createWalletClient\<close> construct the clients of a network.
  \<^item> The \<open>read_...\<close> fields are the contract reads by what the token table gives as the
    address;
    \<open>writeContract\<close> and \<open>waitForTransactionReceipt\<close> answer against the writes accepted
    so far; \<open>merchant_rejects_first\<close> says which of two failing receipt waits rejects
    first; \<open>getTransactionReceipt\<close> and \<open>getBlockNumber\<close> are read by network, for the
    transaction hash under check.
  \<^item> \<open>supabase_configured\<close> and \<open>select_succeeds\<close>: the transaction store is configured,
    and its query returns rows.
  \<^item> \<open>config\<close> is the bridge configuration; \<open>validate_verify\<close> and \<open>validate_settle\<close>
    are the request schemas; \<open>linkAgentIdentity\<close> is the identity collaborator.
  \<^item> \<open>parse_amount\<close>, \<open>format_human\<close> and \<open>fee_symbol\<close> serve the fee engine,
    \<open>derive_fingerprint\<close> and \<open>cache_ttl\<close> the idempotency cache.
\<close>

text \<open>
  \<^verbatim>\<open>error instanceof Error\<close> and \<^verbatim>\<open>error.message\<close>. The engine reads the message of
  instances of \<^verbatim>\<open>Error\<close> only; of another thrown value it is the \<^verbatim>\<open>message\<close> property
  when that is a string.
\<close>

fun instanceof_Error :: "exn \<Rightarrow> bool" where
  "instanceof_Error (Thrown x) = False"
| "instanceof_Error _ = True"

fun message :: "env \<Rightarrow> exn \<Rightarrow> string" where
  "message env (Error m) = m"
| "message env (Builtin k) = engine_message env k"
| "message env (Thrown x) = (case propOf x ''message'' of JStr m \<Rightarrow> m | _ \<Rightarrow> [])"

section \<open>Payment-header normalizer\<close>

record auth =
  auth_from :: jsval
  auth_to :: jsval
  auth_value :: jsval
  auth_validAfter :: jsval
  auth_validBefore :: jsval
  auth_nonce :: jsval
  auth_signature :: jsval
  auth_v :: jsval
  auth_r :: jsval
  auth_s :: jsval

text \<open>The optional chain \<^verbatim>\<open>parsed.payload?.authorization\<close>, once \<^verbatim>\<open>parsed.payload\<close> is read.\<close>

definition opt_chain :: "jsval \<Rightarrow> string \<Rightarrow> jsval" where
  "opt_chain x k = (if nullish x then JUndefined else propOf x k)"

text \<open>The normalisation proper, on the parsed header.\<close>

definition normalizeHeader :: "jsval \<Rightarrow> exn + auth" where
  "normalizeHeader parsed =
     bnd (getp parsed ''payload'') (\<lambda>payload.
       let authorization = opt_chain payload ''authorization'' in
       if truthy authorization then
         Inr \<lparr> auth_from = propOf authorization ''from'',
               auth_to = propOf authorization ''to'',
               auth_value = propOf authorization ''value'',
               auth_validAfter = propOf authorization ''validAfter'',
               auth_validBefore = propOf authorization ''validBefore'',
               auth_nonce = propOf authorization ''nonce'',
               auth_signature = propOf parsed ''signature'',
               auth_v = propOf parsed ''v'',
               auth_r = propOf parsed ''r'',
               auth_s = propOf parsed ''s'' \<rparr>
       else if truthy (propOf parsed ''from'') \<and> truthy (propOf parsed ''nonce'') then
         Inr \<lparr> auth_from = propOf parsed ''from'',
               auth_to = propOf parsed ''to'',
               auth_value = propOf parsed ''value'',
               auth_validAfter = propOf parsed ''validAfter'',
               auth_validBefore = propOf parsed ''validBefore'',
               auth_nonce = propOf parsed ''nonce'',
               auth_signature = propOf parsed ''signature'',
               auth_v = propOf parsed ''v'',
               auth_r = propOf parsed ''r'',
               auth_s = propOf parsed ''s'' \<rparr>
       else if truthy (propOf parsed ''sender'') \<and> truthy (propOf parsed ''nonce'') then
         Inr \<lparr> auth_from = propOf parsed ''sender'',
               auth_to = propOf parsed ''to'',
               auth_value = propOf parsed ''value'',
               auth_validAfter = propOf parsed ''validAfter'',
               auth_validBefore = propOf parsed ''validBefore'',
               auth_nonce = propOf parsed ''nonce'',
               auth_signature = propOf parsed ''signature'',
               auth_v = propOf parsed ''v'',
               auth_r = propOf parsed ''r'',
               auth_s = propOf parsed ''s'' \<rparr>
       else Inl (Error ''Invalid payment header format''))"

text \<open>
  \<^verbatim>\<open>parsePaymentHeader\<close>: a string header is base64-decoded and JSON-parsed first (the
  environment's \<open>decode_header\<close>, which may raise), any other header is taken as it is.
\<close>

definition parsePaymentHeader :: "env \<Rightarrow> jsval \<Rightarrow> exn + auth" where
  "parsePaymentHeader env header =
     bnd (case header of JStr h \<Rightarrow> decode_header env h | _ \<Rightarrow> Inr header) normalizeHeader"

section \<open>Signature decomposition\<close>

record vrs =
  sig_v :: jsval
  sig_r :: jsval
  sig_s :: jsval

definition splitSignature :: "jsval \<Rightarrow> exn + vrs" where
  "splitSignature sig =
     bnd (if typeof_object sig then
            bnd (getp sig ''v'') (\<lambda>v. Inr (truthy v \<and> truthy (propOf sig ''r'') \<and> truthy (propOf sig ''s'')))
          else Inr False) (\<lambda>already_split.
     if already_split then
       Inr \<lparr> sig_v = propOf sig ''v'', sig_r = propOf sig ''r'', sig_s = propOf sig ''s'' \<rparr>
     else
       bnd (case sig of JStr x \<Rightarrow> Inr sig | _ \<Rightarrow> getp sig ''signature'') (\<lambda>signature.
       if \<not> truthy signature then Inl (Error ''Missing signature'')
       else
         (case signature of
            JStr str \<Rightarrow>
              let cleanSig = (if startsWith str ''0x'' then drop 2 str else str) in
              Inr \<lparr> sig_v = parseInt (slice cleanSig 128 130) (Some 16),
                    sig_r = JStr (''0x'' @ slice cleanSig 0 64),
                    sig_s = JStr (''0x'' @ slice cleanSig 64 128) \<rparr>
          | _ \<Rightarrow> Inl (Builtin TypeError))))"

text \<open>
  The combined form of a signature, for the round trip: 65 bytes \<open>r\<close>, \<open>s\<close>, \<open>v\<close> in
  lower-case hexadecimal behind \<^verbatim>\<open>0x\<close>.
\<close>

definition hex_char :: "nat \<Rightarrow> char" where
  "hex_char n = char_of (if n < 10 then 48 + n else 87 + n)"

definition hex_of_byte :: "8 word \<Rightarrow> string" where
  "hex_of_byte b = [hex_char (unat b div 16), hex_char (unat b mod 16)]"

definition hex_of_bytes :: "8 word list \<Rightarrow> string" where
  "hex_of_bytes bs = concat (map hex_of_byte bs)"

definition combine :: "8 word \<Rightarrow> 8 word list \<Rightarrow> 8 word list \<Rightarrow> string" where
  "combine v r s = ''0x'' @ hex_of_bytes r @ hex_of_bytes s @ hex_of_byte v"

section \<open>Chain configuration of the settlement module\<close>

record chain_config =
  cc_confirmations :: nat

record token_info =
  ti_symbol :: string
  ti_decimals :: nat
  ti_supportsEIP3009 :: bool

text \<open>
  The three tables. Of a chain's entry the model keeps the number of confirmations; its
  chain object and RPC URL only reach the client constructors, which the environment
  answers by network name. An inherited member has no \<^verbatim>\<open>confirmations\<close>, \<^verbatim>\<open>symbol\<close> or
  \<^verbatim>\<open>supportsEIP3009\<close>: the reads give \<^verbatim>\<open>undefined\<close>.
\<close>

definition CHAIN_CONFIG :: "string \<Rightarrow> chain_config entry option" where
  "CHAIN_CONFIG = index_object
     [(''base-sepolia'', \<lparr> cc_confirmations = 2 \<rparr>),
      (''ethereum-sepolia'', \<lparr> cc_confirmations = 3 \<rparr>),
      (''base-mainnet'', \<lparr> cc_confirmations = 2 \<rparr>),
      (''ethereum-mainnet'', \<lparr> cc_confirmations = 3 \<rparr>),
      (''0g-mainnet'', \<lparr> cc_confirmations = 5 \<rparr>),
      (''skale-base-sepolia'', \<lparr> cc_confirmations = 1 \<rparr>)]"

definition TOKEN_ADDRESSES :: "string \<Rightarrow> string entry option" where
  "TOKEN_ADDRESSES = index_object
     [(''base-sepolia'', ''0x036CbD53842c5426634e7929541eC2318f3dCF7e''),
      (''ethereum-sepolia'', ''0x1c7D4B196Cb0C7B01d743Fbc6116a902379C7238''),
      (''base-mainnet'', ''0x833589fCD6eDb6E08f4c7C32D4f71b54bdA02913''),
      (''ethereum-mainnet'', ''0xA0b86991c6218b36c1d19D4a2e9Eb0cE3606eB48''),
      (''skale-base-sepolia'', ''0x2e08028E3C4c2356572E096d8EF835cD5C6030bD''),
      (''0g-mainnet'', ''0x1Cd0690fF9a693f5EF2dD976660a8dAFc81A109c'')]"

definition TOKEN_INFO :: "string \<Rightarrow> token_info entry option" where
  "TOKEN_INFO = index_object
     [(''base-sepolia'', \<lparr> ti_symbol = ''USDC'', ti_decimals = 6, ti_supportsEIP3009 = True \<rparr>),
      (''ethereum-sepolia'', \<lparr> ti_symbol = ''USDC'', ti_decimals = 6, ti_supportsEIP3009 = True \<rparr>),
      (''base-mainnet'', \<lparr> ti_symbol = ''USDC'', ti_decimals = 6, ti_supportsEIP3009 = True \<rparr>),
      (''ethereum-mainnet'', \<lparr> ti_symbol = ''USDC'', ti_decimals = 6, ti_supportsEIP3009 = True \<rparr>),
      (''skale-base-sepolia'', \<lparr> ti_symbol = ''USDC'', ti_decimals = 6, ti_supportsEIP3009 = True \<rparr>),
      (''0g-mainnet'', \<lparr> ti_symbol = ''W0G'', ti_decimals = 18, ti_supportsEIP3009 = False \<rparr>)]"

fun confirmations_of :: "chain_config entry \<Rightarrow> nat option" where
  "confirmations_of (Own c) = Some (cc_confirmations c)"
| "confirmations_of Inherited = None"

text \<open>\<^verbatim>\<open>tokenInfo.symbol\<close> inside a template literal, and \<^verbatim>\<open>tokenInfo.supportsEIP3009\<close> as a condition.\<close>

fun symbol_of :: "token_info entry \<Rightarrow> string" where
  "symbol_of (Own t) = ti_symbol t"
| "symbol_of Inherited = ''undefined''"

fun supportsEIP3009_of :: "token_info entry \<Rightarrow> bool" where
  "supportsEIP3009_of (Own t) = ti_supportsEIP3009 t"
| "supportsEIP3009_of Inherited = False"

section \<open>Verifier\<close>

record verify_result =
  vr_isValid :: bool
  vr_invalidReason :: "string option"
  vr_decimals :: "int option"

text \<open>
  The body of the \<^verbatim>\<open>try\<close> block of \<^verbatim>\<open>verifyPaymentManaged\<close>. \<open>Inl\<close> is an exception
  raised inside the block; every \<^verbatim>\<open>return\<close> of the block is an \<open>Inr\<close>. The comparison
  \<^verbatim>\<open>now > validBefore\<close> is the runtime's \<^verbatim>\<open>validBefore < now\<close>.
\<close>

definition verify_try :: "env \<Rightarrow> request \<Rightarrow> exn + verify_result" where
  "verify_try env request =
     (let network = pr_network (req_paymentRequirements request) in
      bnd (parsePaymentHeader env (req_paymentHeader request)) (\<lambda>auth.
      let payerAddress = auth_from auth in
      case (TOKEN_ADDRESSES network, TOKEN_INFO network) of
        (Some tokenAddress, Some tokenInfo) \<Rightarrow>
          bnd (read_decimals env tokenAddress) (\<lambda>decimals.
          bnd (BigInt env (JStr (pr_maxAmountRequired (req_paymentRequirements request)))) (\<lambda>amount.
          let now = date_now env AtVerify div 1000 in
          bnd (if truthy (auth_validAfter auth) then
                 let validAfter = (case auth_validAfter auth of JStr x \<Rightarrow> parseInt x None | y \<Rightarrow> y) in
                 bnd (js_less env (JNum now) validAfter) (\<lambda>notYet.
                   if notYet then
                     bnd (to_str env validAfter) (\<lambda>va. bnd (to_str env (JNum now)) (\<lambda>nw.
                       Inr (Some \<lparr> vr_isValid = False,
                              vr_invalidReason = Some (''Authorization not yet valid (validAfter: '' @ va @ '', now: '' @ nw @ '')''),
                              vr_decimals = Some decimals \<rparr>)))
                   else Inr None)
               else Inr None) (\<lambda>early.
          case early of Some res \<Rightarrow> Inr res | None \<Rightarrow>
          bnd (if truthy (auth_validBefore auth) then
                 let validBefore = (case auth_validBefore auth of JStr x \<Rightarrow> parseInt x None | y \<Rightarrow> y) in
                 bnd (js_less env validBefore (JNum now)) (\<lambda>expired.
                   if expired then
                     bnd (to_str env validBefore) (\<lambda>vb. bnd (to_str env (JNum now)) (\<lambda>nw.
                       Inr (Some \<lparr> vr_isValid = False,
                              vr_invalidReason = Some (''Authorization expired (validBefore: '' @ vb @ '', now: '' @ nw @ '')''),
                              vr_decimals = Some decimals \<rparr>)))
                   else Inr None)
               else Inr None) (\<lambda>late.
          case late of Some res \<Rightarrow> Inr res | None \<Rightarrow>
          bnd (read_balanceOf env tokenAddress payerAddress) (\<lambda>balance.
          if balance < amount then
            Inr \<lparr> vr_isValid = False,
                  vr_invalidReason = Some (''Insufficient '' @ symbol_of tokenInfo @ '' balance. Required: ''
                     @ formatUnits env amount decimals @ '' '' @ symbol_of tokenInfo @ '', Available: ''
                     @ formatUnits env balance decimals @ '' '' @ symbol_of tokenInfo),
                  vr_decimals = Some decimals \<rparr>
          else if supportsEIP3009_of tokenInfo then
            (case auth_nonce auth of
               JStr nonce \<Rightarrow>
                 let nonceBytes32 = (if startsWith nonce ''0x'' then nonce else ''0x'' @ nonce) in
                 bnd (read_authorizationState env tokenAddress payerAddress nonceBytes32) (\<lambda>authUsed.
                 if authUsed then
                   Inr \<lparr> vr_isValid = False,
                         vr_invalidReason = Some (''Authorization already used (nonce: '' @ nonce @ '')''),
                         vr_decimals = Some decimals \<rparr>
                 else Inr \<lparr> vr_isValid = True, vr_invalidReason = None, vr_decimals = Some decimals \<rparr>)
             | _ \<Rightarrow> Inl (Builtin TypeError))
          else
            bnd (privateKeyToAccount env) (\<lambda>facilitatorAddress.
            bnd (read_allowance env tokenAddress payerAddress facilitatorAddress) (\<lambda>allowance.
            if allowance < amount then
              Inr \<lparr> vr_isValid = False,
                    vr_invalidReason = Some (''Insufficient allowance. User must approve facilitator (''
                       @ facilitatorAddress @ '') for '' @ formatUnits env amount decimals @ '' ''
                       @ symbol_of tokenInfo @ ''. Current allowance: '' @ formatUnits env allowance decimals
                       @ '' '' @ symbol_of tokenInfo),
                    vr_decimals = Some decimals \<rparr>
            else Inr \<lparr> vr_isValid = True, vr_invalidReason = None, vr_decimals = Some decimals \<rparr>)))))))
      | _ \<Rightarrow>
          Inr \<lparr> vr_isValid = False,
                vr_invalidReason = Some (''Token not available on '' @ network),
                vr_decimals = None \<rparr>))"

text \<open>
  \<^verbatim>\<open>verifyPaymentManaged\<close>: the network lookup and the construction of the public client
  come before the \<^verbatim>\<open>try\<close>; the \<^verbatim>\<open>catch\<close> turns what the block raises into a result.
\<close>

definition verifyPaymentManaged :: "env \<Rightarrow> request \<Rightarrow> exn + verify_result" where
  "verifyPaymentManaged env request =
     (let network = pr_network (req_paymentRequirements request) in
      case CHAIN_CONFIG network of
        None \<Rightarrow>
          Inr \<lparr> vr_isValid = False,
                vr_invalidReason = Some (''Unsupported network: '' @ network),
                vr_decimals = None \<rparr>
      | Some chainConfig \<Rightarrow>
          bnd (createPublicClient env network) (\<lambda>publicClient.
            case verify_try env request of
              Inr res \<Rightarrow> Inr res
            | Inl error \<Rightarrow>
                Inr \<lparr> vr_isValid = False,
                      vr_invalidReason =
                        Some (if instanceof_Error error then message env error else ''Verification failed''),
                      vr_decimals = None \<rparr>))"

section \<open>Settler\<close>

datatype settle_status = Pending | Confirmed | PartialSettlement | Failed

record settle_result =
  sr_txHash :: string
  sr_txHashFee :: "string option"
  sr_status :: settle_status
  sr_confirmations :: "nat option"

text \<open>
  A settlement runs against the list of contract writes the wallet client has accepted so
  far (those for which it returned a transaction hash); the gateway's answers may depend
  on it. A computation takes that list and returns it with its result or exception.
\<close>

type_synonym 'a chain_io = "tx_call list \<Rightarrow> (exn + 'a) \<times> tx_call list"

definition sbnd :: "'a chain_io \<Rightarrow> ('a \<Rightarrow> 'b chain_io) \<Rightarrow> 'b chain_io" where
  "sbnd m f sent = (case m sent of (Inl e, sent') \<Rightarrow> (Inl e, sent') | (Inr x, sent') \<Rightarrow> f x sent')"

definition lift :: "exn + 'a \<Rightarrow> 'a chain_io" where
  "lift m sent = (m, sent)"

definition submit :: "env \<Rightarrow> tx_call \<Rightarrow> string chain_io" where
  "submit env call sent =
     (case writeContract env sent call of
        Inl e \<Rightarrow> (Inl e, sent)
      | Inr hash \<Rightarrow> (Inr hash, sent @ [call]))"

definition wait_receipt :: "env \<Rightarrow> string \<Rightarrow> nat option \<Rightarrow> receipt chain_io" where
  "wait_receipt env hash confirmations sent =
     (waitForTransactionReceipt env sent hash confirmations, sent)"

text \<open>
  \<^verbatim>\<open>Promise.all\<close> of the two receipt waits: both run against the same chain; when both
  reject, the environment says which rejection came first.
\<close>

definition wait_both :: "env \<Rightarrow> string \<Rightarrow> string \<Rightarrow> nat option \<Rightarrow> (receipt \<times> receipt) chain_io" where
  "wait_both env hashMerchant hashFee confirmations sent =
     (case (waitForTransactionReceipt env sent hashMerchant confirmations,
            waitForTransactionReceipt env sent hashFee confirmations) of
        (Inr receiptMerchant, Inr receiptFee) \<Rightarrow> (Inr (receiptMerchant, receiptFee), sent)
      | (Inl e, Inr receiptFee) \<Rightarrow> (Inl e, sent)
      | (Inr receiptMerchant, Inl e) \<Rightarrow> (Inl e, sent)
      | (Inl e1, Inl e2) \<Rightarrow> (Inl (if merchant_rejects_first env then e1 else e2), sent))"

text \<open>The normalized authorization as the object \<^verbatim>\<open>splitSignature\<close> receives.\<close>

definition auth_object :: "auth \<Rightarrow> jsval" where
  "auth_object a = JObj
     [(''from'', auth_from a), (''to'', auth_to a), (''value'', auth_value a),
      (''validAfter'', auth_validAfter a), (''validBefore'', auth_validBefore a),
      (''nonce'', auth_nonce a), (''signature'', auth_signature a),
      (''v'', auth_v a), (''r'', auth_r a), (''s'', auth_s a)]"

text \<open>The \<^verbatim>\<open>try\<close> block of \<^verbatim>\<open>settleWithEIP3009\<close>.\<close>

definition settleWithEIP3009_try ::
  "env \<Rightarrow> request \<Rightarrow> int \<Rightarrow> int \<Rightarrow> chain_config entry \<Rightarrow> settle_result chain_io" where
  "settleWithEIP3009_try env request feeAmount netAmount chainConfig =
     (let network = pr_network (req_paymentRequirements request) in
      sbnd (lift (parsePaymentHeader env (req_paymentHeader request))) (\<lambda>auth.
      let payerAddress = auth_from auth;
          merchantAddress = JStr (pr_payTo (req_paymentRequirements request)) in
      sbnd (lift (case TOKEN_ADDRESSES network of
                    None \<Rightarrow> Inl (Error (''Token not configured for '' @ network))
                  | Some a \<Rightarrow> Inr a)) (\<lambda>tokenAddress.
      sbnd (lift (if truthy (auth_v auth) \<and> truthy (auth_r auth) \<and> truthy (auth_s auth)
                  then Inr \<lparr> sig_v = auth_v auth, sig_r = auth_r auth, sig_s = auth_s auth \<rparr>
                  else splitSignature (if truthy (auth_signature auth) then auth_signature auth
                                       else auth_object auth))) (\<lambda>sg.
      sbnd (lift (if truthy (auth_validAfter auth) then BigInt env (auth_validAfter auth)
                  else Inr 0)) (\<lambda>validAfter.
      sbnd (lift (if truthy (auth_validBefore auth) then BigInt env (auth_validBefore auth)
                  else BigInt env (JNum (date_now env AtSettle div 1000 + 3600)))) (\<lambda>validBefore.
      sbnd (lift (case auth_nonce auth of
                    JStr nonce \<Rightarrow> Inr (if startsWith nonce ''0x'' then nonce else ''0x'' @ nonce)
                  | _ \<Rightarrow> Inl (Builtin TypeError))) (\<lambda>nonceBytes32.
      sbnd (lift (BigInt env (auth_value auth))) (\<lambda>signedAmount.
      sbnd (submit env (TransferWithAuthorization tokenAddress payerAddress merchantAddress
                          signedAmount validAfter validBefore nonceBytes32
                          (sig_v sg) (sig_r sg) (sig_s sg))) (\<lambda>hashMerchant.
      let hashFee = None in
      sbnd (wait_receipt env hashMerchant (confirmations_of chainConfig)) (\<lambda>receipt.
      lift (Inr \<lparr> sr_txHash = hashMerchant,
                  sr_txHashFee = hashFee,
                  sr_status = (if receipt_status receipt = Success then Confirmed else Failed),
                  sr_confirmations = confirmations_of chainConfig \<rparr>)))))))))))"

text \<open>
  The account and the two clients are made before the \<^verbatim>\<open>try\<close>; what the block raises is
  raised again as a new \<^verbatim>\<open>Error\<close> that holds a message only.
\<close>

definition settleWithEIP3009 ::
  "env \<Rightarrow> request \<Rightarrow> int \<Rightarrow> int \<Rightarrow> chain_config entry \<Rightarrow> settle_result chain_io" where
  "settleWithEIP3009 env request feeAmount netAmount chainConfig =
     (let network = pr_network (req_paymentRequirements request) in
      sbnd (lift (privateKeyToAccount env)) (\<lambda>account.
      sbnd (lift (createWalletClient env network)) (\<lambda>walletClient.
      sbnd (lift (createPublicClient env network)) (\<lambda>publicClient.
      (\<lambda>sent.
        case settleWithEIP3009_try env request feeAmount netAmount chainConfig sent of
          (Inr res, sent') \<Rightarrow> (Inr res, sent')
        | (Inl error, sent') \<Rightarrow>
            (Inl (Error (''EIP-3009 settlement failed: '' @
                   (if instanceof_Error error then message env error else ''Unknown error''))),
             sent'))))))"

text \<open>The \<^verbatim>\<open>try\<close> block of \<^verbatim>\<open>settleWithRelayer\<close>.\<close>

definition settleWithRelayer_try ::
  "env \<Rightarrow> request \<Rightarrow> int \<Rightarrow> int \<Rightarrow> chain_config entry \<Rightarrow> settle_result chain_io" where
  "settleWithRelayer_try env request feeAmount netAmount chainConfig =
     (let network = pr_network (req_paymentRequirements request) in
      sbnd (lift (parsePaymentHeader env (req_paymentHeader request))) (\<lambda>auth.
      let payerAddress = auth_from auth;
          merchantAddress = JStr (pr_payTo (req_paymentRequirements request));
          treasuryAddress = treasury_address env in
      sbnd (lift (case TOKEN_ADDRESSES network of
                    None \<Rightarrow> Inl (Error (''Token not configured for '' @ network))
                  | Some a \<Rightarrow> Inr a)) (\<lambda>tokenAddress.
      sbnd (submit env (TransferFrom tokenAddress payerAddress merchantAddress netAmount)) (\<lambda>hashMerchant.
      sbnd (submit env (TransferFrom tokenAddress payerAddress treasuryAddress feeAmount)) (\<lambda>hashFee.
      sbnd (wait_both env hashMerchant hashFee (confirmations_of chainConfig)) (\<lambda>(receiptMerchant, receiptFee).
      if receipt_status receiptMerchant \<noteq> Success \<or> receipt_status receiptFee \<noteq> Success then
        lift (Inr \<lparr> sr_txHash = hashMerchant,
                    sr_txHashFee = Some hashFee,
                    sr_status = PartialSettlement,
                    sr_confirmations = confirmations_of chainConfig \<rparr>)
      else
        lift (Inr \<lparr> sr_txHash = hashMerchant,
                    sr_txHashFee = Some hashFee,
                    sr_status = Confirmed,
                    sr_confirmations = confirmations_of chainConfig \<rparr>)))))))"

definition settleWithRelayer ::
  "env \<Rightarrow> request \<Rightarrow> int \<Rightarrow> int \<Rightarrow> chain_config entry \<Rightarrow> settle_result chain_io" where
  "settleWithRelayer env request feeAmount netAmount chainConfig =
     (let network = pr_network (req_paymentRequirements request) in
      sbnd (lift (privateKeyToAccount env)) (\<lambda>account.
      sbnd (lift (createWalletClient env network)) (\<lambda>walletClient.
      sbnd (lift (createPublicClient env network)) (\<lambda>publicClient.
      (\<lambda>sent.
        case settleWithRelayer_try env request feeAmount netAmount chainConfig sent of
          (Inr res, sent') \<Rightarrow> (Inr res, sent')
        | (Inl error, sent') \<Rightarrow>
            (Inl (Error (''Relayer settlement failed: '' @
                   (if instanceof_Error error then message env error else ''Unknown error''))),
             sent'))))))"

definition settlePaymentManaged :: "env \<Rightarrow> request \<Rightarrow> int \<Rightarrow> int \<Rightarrow> settle_result chain_io" where
  "settlePaymentManaged env request feeAmount netAmount =
     (let network = pr_network (req_paymentRequirements request) in
      case CHAIN_CONFIG network of
        None \<Rightarrow> lift (Inl (Error (''Unsupported network: '' @ network)))
      | Some chainConfig \<Rightarrow>
          (case TOKEN_INFO network of
             None \<Rightarrow> lift (Inl (Error (''Token not configured for '' @ network)))
           | Some tokenInfo \<Rightarrow>
               if supportsEIP3009_of tokenInfo
               then settleWithEIP3009 env request feeAmount netAmount chainConfig
               else settleWithRelayer env request feeAmount netAmount chainConfig))"

section \<open>Fee engine\<close>

record money =
  m_human :: string
  m_base :: nat
  m_symbol :: string

record fee_breakdown =
  fb_amount :: money
  fb_fee :: money
  fb_net :: money

definition feeBps :: nat where
  "feeBps = 100"

text \<open>
  Modelled from the spec: \<^verbatim>\<open>computeFeeBreakdown\<close> (module \<^verbatim>\<open>managed/amounts\<close>) is not among
  the sources. The fee engine is a pure function over integers: given \<open>amount\<close> in base
  units, \<open>fee = amount * feeBps / 10000\<close> (floor division) and \<open>net = amount - fee\<close>; each
  part is reported in base units, in human units and with the token symbol.
\<close>

definition feeBreakdown :: "env \<Rightarrow> nat \<Rightarrow> fee_breakdown" where
  "feeBreakdown env amount =
     (let fee = amount * feeBps div 10000;
          net = amount - fee;
          part = (\<lambda>x. \<lparr> m_human = format_human env x, m_base = x, m_symbol = fee_symbol env \<rparr>)
      in \<lparr> fb_amount = part amount, fb_fee = part fee, fb_net = part net \<rparr>)"

text \<open>
  Modelled from the spec: \<^verbatim>\<open>computeFeeBreakdown\<close> as the handlers call it, on the decimal
  string \<^verbatim>\<open>maxAmountRequired\<close>; a string that is not an amount of base units raises.
\<close>

definition computeFeeBreakdown :: "env \<Rightarrow> string \<Rightarrow> exn + fee_breakdown" where
  "computeFeeBreakdown env maxAmountRequired =
     bnd (parse_amount env maxAmountRequired) (\<lambda>amount. Inr (feeBreakdown env amount))"

text \<open>
  Modelled from the spec: \<^verbatim>\<open>calculateFee\<close> (module \<^verbatim>\<open>managed/fees\<close>) is not among the
  sources; it is the same fee engine, giving the pair \<open>(feeAmount, netAmount)\<close> the
  settler receives.
\<close>

definition calculateFee :: "int \<Rightarrow> int \<times> int" where
  "calculateFee amount = (amount * int feeBps div 10000, amount - amount * int feeBps div 10000)"

section \<open>Finality confirmer\<close>

text \<open>The chain registry of \<^verbatim>\<open>config/chains\<close>, as far as \<^verbatim>\<open>getConfirmations\<close> reads it.\<close>

definition CHAINS :: "string \<Rightarrow> chain_config entry option" where
  "CHAINS = index_object
     [(''base-sepolia'', \<lparr> cc_confirmations = 2 \<rparr>),
      (''ethereum-sepolia'', \<lparr> cc_confirmations = 3 \<rparr>),
      (''0g-testnet'', \<lparr> cc_confirmations = 1 \<rparr>),
      (''skale-base-sepolia'', \<lparr> cc_confirmations = 1 \<rparr>),
      (''base-mainnet'', \<lparr> cc_confirmations = 2 \<rparr>),
      (''ethereum-mainnet'', \<lparr> cc_confirmations = 3 \<rparr>),
      (''0g-mainnet'', \<lparr> cc_confirmations = 5 \<rparr>)]"

definition getChainConfig :: "string \<Rightarrow> exn + chain_config entry" where
  "getChainConfig network =
     (case CHAINS network of
        None \<Rightarrow> Inl (Error (''Unsupported network: '' @ network))
      | Some cfg \<Rightarrow> Inr cfg)"

definition getConfirmations :: "string \<Rightarrow> exn + nat option" where
  "getConfirmations network = bnd (getChainConfig network) (\<lambda>cfg. Inr (confirmations_of cfg))"

record finality =
  fin_confirmed :: bool
  fin_confirmations :: number
  fin_status :: receipt_status

text \<open>
  \<^verbatim>\<open>checkTransactionFinality\<close> of the settlement module: reading \<^verbatim>\<open>chainConfig.chain\<close> of a
  network absent from \<open>CHAIN_CONFIG\<close> raises a \<^verbatim>\<open>TypeError\<close>.
\<close>

definition checkTransactionFinality ::
  "env \<Rightarrow> string \<Rightarrow> string \<Rightarrow> nat option \<Rightarrow> exn + finality" where
  "checkTransactionFinality env txHash network requiredConfirmations =
     (case CHAIN_CONFIG network of
        None \<Rightarrow> Inl (Builtin TypeError)
      | Some chainConfig \<Rightarrow>
          bnd (createPublicClient env network) (\<lambda>publicClient.
          bnd (getTransactionReceipt env network txHash) (\<lambda>receipt.
          bnd (getBlockNumber env network txHash) (\<lambda>currentBlock.
          let confirmations = Number_of_bigint (currentBlock - receipt_blockNumber receipt) in
          Inr \<lparr> fin_confirmed = number_ge confirmations requiredConfirmations,
                fin_confirmations = confirmations,
                fin_status = receipt_status receipt \<rparr>))))"

record tx_record =
  tx_id :: string
  tx_hash :: string
  tx_hash_fee :: "string option"
  tx_chain :: string
  tx_status :: settle_status
  tx_confirmations :: number
  tx_confirmed_at :: "string option"

text \<open>
  The transaction store is the table as a list of rows;
  \<^verbatim>\<open>update(fields).eq('id', id)\<close> rewrites the rows with that id.
\<close>

definition update_eq_id :: "string \<Rightarrow> (tx_record \<Rightarrow> tx_record) \<Rightarrow> tx_record list \<Rightarrow> tx_record list" where
  "update_eq_id i f store = map (\<lambda>row. if tx_id row = i then f row else row) store"

definition select_pending :: "tx_record list \<Rightarrow> tx_record list" where
  "select_pending store =
     take 50 (filter (\<lambda>row. tx_status row = Pending \<or> tx_status row = PartialSettlement) store)"

text \<open>One turn of the loop: the body of the \<^verbatim>\<open>try\<close>, and the \<^verbatim>\<open>catch\<close> that only logs.\<close>

definition confirm_one :: "env \<Rightarrow> tx_record \<Rightarrow> tx_record list \<Rightarrow> tx_record list" where
  "confirm_one env tx store =
     (case bnd (getConfirmations (tx_chain tx)) (\<lambda>confirmationsRequired.
             checkTransactionFinality env (tx_hash tx) (tx_chain tx) confirmationsRequired) of
        Inl error \<Rightarrow> store
      | Inr result \<Rightarrow>
          if fin_confirmed result then
            update_eq_id (tx_id tx)
              (\<lambda>row. row \<lparr> tx_status := (if fin_status result = Success then Confirmed else Failed),
                            tx_confirmations := fin_confirmations result,
                            tx_confirmed_at := Some (iso_now env (tx_id tx)) \<rparr>) store
          else
            update_eq_id (tx_id tx)
              (\<lambda>row. row \<lparr> tx_confirmations := fin_confirmations result \<rparr>) store)"

fun sweep :: "env \<Rightarrow> tx_record list \<Rightarrow> tx_record list \<Rightarrow> tx_record list" where
  "sweep env [] store = store"
| "sweep env (tx # pending) store = sweep env pending (confirm_one env tx store)"

definition confirmPendingTransactions :: "env \<Rightarrow> tx_record list \<Rightarrow> tx_record list" where
  "confirmPendingTransactions env store =
     (if \<not> supabase_configured env then store
      else if \<not> select_succeeds env then store
      else sweep env (select_pending store) store)"

section \<open>Request gateway\<close>

record verify_response =
  vresp_isValid :: bool
  vresp_invalidReason :: "string option"
  vresp_consensusProof :: "string option"
  vresp_reportId :: string
  vresp_timestamp :: int
  vresp_amount :: "money option"
  vresp_fee :: "money option"
  vresp_net :: "money option"

record settle_response =
  sresp_success :: bool
  sresp_error :: "string option"
  sresp_txHash :: "string option"
  sresp_txHashFee :: "string option"
  sresp_networkId :: "string option"
  sresp_consensusProof :: string
  sresp_timestamp :: int
  sresp_amount :: "money option"
  sresp_fee :: "money option"
  sresp_net :: "money option"
  sresp_status :: "settle_status option"
  sresp_evidenceHash :: "string option"
  sresp_proofOfAgency :: "string option"

record error_response =
  er_error :: string
  er_code :: string
  er_details :: "exn option"

datatype body = VerifyBody verify_response | SettleBody settle_response | ErrorBody error_response

record reply =
  rp_code :: nat
  rp_body :: body

record http_request =
  hr_body :: jsval
  hr_idempotencyKey :: "string option"

record world =
  w_sent :: "tx_call list"
  w_cache :: "string \<Rightarrow> (body \<times> int) option"

text \<open>
  Modelled from the spec: the idempotency middleware (\<^verbatim>\<open>tryServeCachedResponse\<close> and
  \<^verbatim>\<open>storeResponseForIdempotency\<close>, module \<^verbatim>\<open>middleware/idempotency\<close>) is not among the
  sources. The fingerprint is derived from the route and a stable subset of the request
  body, and a client-supplied \<^verbatim>\<open>Idempotency-Key\<close> overrides it. If the cache has an entry
  for the fingerprint within the TTL, the cached body is the reply; otherwise the request
  is processed and its response body stored under the fingerprint.
\<close>

definition fingerprint :: "env \<Rightarrow> route \<Rightarrow> http_request \<Rightarrow> string" where
  "fingerprint env rt hr =
     (case hr_idempotencyKey hr of Some k \<Rightarrow> k | None \<Rightarrow> derive_fingerprint env rt (hr_body hr))"

definition tryServeCachedResponse :: "env \<Rightarrow> route \<Rightarrow> http_request \<Rightarrow> world \<Rightarrow> body option" where
  "tryServeCachedResponse env rt hr w =
     (case w_cache w (fingerprint env rt hr) of
        None \<Rightarrow> None
      | Some (b, created_at) \<Rightarrow>
          if date_now env AtCache < created_at + cache_ttl env then Some b else None)"

definition storeResponseForIdempotency :: "env \<Rightarrow> route \<Rightarrow> http_request \<Rightarrow> body \<Rightarrow> world \<Rightarrow> world" where
  "storeResponseForIdempotency env rt hr b w =
     w \<lparr> w_cache := (w_cache w)(fingerprint env rt hr \<mapsto> (b, date_now env AtCache)) \<rparr>"

text \<open>A handler step runs against the world: the chain and the idempotency cache.\<close>

definition wbnd ::
  "(world \<Rightarrow> (exn + 'a) \<times> world) \<Rightarrow> ('a \<Rightarrow> world \<Rightarrow> (exn + 'b) \<times> world) \<Rightarrow> world \<Rightarrow> (exn + 'b) \<times> world" where
  "wbnd m f w = (case m w of (Inl e, w') \<Rightarrow> (Inl e, w') | (Inr x, w') \<Rightarrow> f x w')"

definition pure_step :: "exn + 'a \<Rightarrow> world \<Rightarrow> (exn + 'a) \<times> world" where
  "pure_step m w = (m, w)"

definition on_chain :: "'a chain_io \<Rightarrow> world \<Rightarrow> (exn + 'a) \<times> world" where
  "on_chain m w = (case m (w_sent w) of (res, sent') \<Rightarrow> (res, w \<lparr> w_sent := sent' \<rparr>))"

text \<open>\<^verbatim>\<open>Buffer.from(str).toString('hex')\<close> and \<^verbatim>\<open>padEnd(64, '0')\<close>.\<close>

definition hex_of_string :: "string \<Rightarrow> string" where
  "hex_of_string str = concat (map (\<lambda>c. hex_of_byte (of_char c)) str)"

definition padEnd64 :: "string \<Rightarrow> string" where
  "padEnd64 str = str @ replicate (64 - length str) (CHR ''0'')"

text \<open>
  The simulated workflow. The chain id that \<^verbatim>\<open>simulateSettle\<close> looks up goes to the log
  only.
\<close>

definition simulateVerify :: "env \<Rightarrow> request \<Rightarrow> exn + verify_response" where
  "simulateVerify env request =
     (let timestamp = date_now env AtSimulate in
      bnd (to_str env (JNum timestamp)) (\<lambda>ts.
      let proofData = pr_payTo (req_paymentRequirements request) @ ts;
          proofHash = ''0x'' @ slice (hex_of_string proofData) 0 64
      in Inr \<lparr> vresp_isValid = True,
               vresp_invalidReason = None,
               vresp_consensusProof = Some proofHash,
               vresp_reportId = ''rep_'' @ ts,
               vresp_timestamp = timestamp,
               vresp_amount = None, vresp_fee = None, vresp_net = None \<rparr>))"

definition simulateSettle :: "env \<Rightarrow> request \<Rightarrow> exn + settle_response" where
  "simulateSettle env request =
     (let timestamp = date_now env AtSimulate in
      bnd (to_str env (JNum timestamp)) (\<lambda>ts.
      let txData = pr_payTo (req_paymentRequirements request) @ pr_asset (req_paymentRequirements request) @ ts;
          txHash = ''0x'' @ slice (hex_of_string txData) 0 64;
          proofData = txData @ ''consensus'';
          proofHash = ''0x'' @ slice (hex_of_string proofData) 0 64
      in Inr \<lparr> sresp_success = True,
               sresp_error = None,
               sresp_txHash = Some txHash,
               sresp_txHashFee = None,
               sresp_networkId = Some (pr_network (req_paymentRequirements request)),
               sresp_consensusProof = proofHash,
               sresp_timestamp = timestamp,
               sresp_amount = None, sresp_fee = None, sresp_net = None,
               sresp_status = None, sresp_evidenceHash = None, sresp_proofOfAgency = None \<rparr>))"

definition forwardVerifyToCRE :: "env \<Rightarrow> request \<Rightarrow> exn + verify_response" where
  "forwardVerifyToCRE env request =
     (if cfg_creWorkflowUrl (config env) = None \<or> cfg_creWorkflowUrl (config env) = Some []
      then Inl (Error ''CRE_WORKFLOW_URL not configured for remote mode'')
      else Inl (Error ''Remote CRE mode not yet implemented''))"

definition forwardSettleToCRE :: "env \<Rightarrow> request \<Rightarrow> exn + settle_response" where
  "forwardSettleToCRE env request =
     (if cfg_creWorkflowUrl (config env) = None \<or> cfg_creWorkflowUrl (config env) = Some []
      then Inl (Error ''CRE_WORKFLOW_URL not configured for remote mode'')
      else Inl (Error ''Remote CRE mode not yet implemented''))"

text \<open>
  The \<^verbatim>\<open>try\<close> block of the \<^verbatim>\<open>POST /verify\<close> handler after the cache lookup, up to the
  response it assembles.
\<close>

definition verify_process :: "env \<Rightarrow> http_request \<Rightarrow> world \<Rightarrow> (exn + verify_response) \<times> world" where
  "verify_process env hr =
     wbnd (pure_step (validate_verify env (hr_body hr))) (\<lambda>validatedRequest.
     let stableTimestamp = date_now env AtHandler in
     wbnd (pure_step (to_str env (JNum stableTimestamp))) (\<lambda>ts.
     let requestId = ''req_'' @ ts @ ''_'' @ random_suffix env in
     wbnd (pure_step (computeFeeBreakdown env
             (pr_maxAmountRequired (req_paymentRequirements validatedRequest)))) (\<lambda>feeBreakdown.
     if cfg_mode (config env) = Managed then
       wbnd (pure_step (verifyPaymentManaged env validatedRequest)) (\<lambda>verification.
       pure_step (Inr \<lparr> vresp_isValid = vr_isValid verification,
                        vresp_invalidReason = vr_invalidReason verification,
                        vresp_consensusProof =
                          (if vr_isValid verification
                           then Some (''0x'' @ padEnd64 (hex_of_string requestId)) else None),
                        vresp_reportId = requestId,
                        vresp_timestamp = stableTimestamp,
                        vresp_amount = Some (fb_amount feeBreakdown),
                        vresp_fee = Some (fb_fee feeBreakdown),
                        vresp_net = Some (fb_net feeBreakdown) \<rparr>))
     else
       wbnd (pure_step (if cfg_creMode (config env) = Simulate
                        then simulateVerify env validatedRequest
                        else forwardVerifyToCRE env validatedRequest)) (\<lambda>baseResponse.
       pure_step (Inr (baseResponse \<lparr> vresp_timestamp := stableTimestamp,
                                       vresp_amount := Some (fb_amount feeBreakdown),
                                       vresp_fee := Some (fb_fee feeBreakdown),
                                       vresp_net := Some (fb_net feeBreakdown) \<rparr>))))))"

text \<open>The same part of the \<^verbatim>\<open>POST /settle\<close> handler.\<close>

definition settle_process :: "env \<Rightarrow> http_request \<Rightarrow> world \<Rightarrow> (exn + settle_response) \<times> world" where
  "settle_process env hr =
     wbnd (pure_step (validate_settle env (hr_body hr))) (\<lambda>validatedRequest.
     let stableTimestamp = date_now env AtHandler;
         network = pr_network (req_paymentRequirements validatedRequest) in
     wbnd (pure_step (computeFeeBreakdown env
             (pr_maxAmountRequired (req_paymentRequirements validatedRequest)))) (\<lambda>feeBreakdown.
     if cfg_mode (config env) = Managed then
       wbnd (pure_step (verifyPaymentManaged env validatedRequest)) (\<lambda>verification.
       if \<not> vr_isValid verification then
         pure_step (Inr \<lparr> sresp_success = False,
                          sresp_error = vr_invalidReason verification,
                          sresp_txHash = None,
                          sresp_txHashFee = None,
                          sresp_networkId = Some network,
                          sresp_consensusProof = [],
                          sresp_timestamp = stableTimestamp,
                          sresp_amount = Some (fb_amount feeBreakdown),
                          sresp_fee = Some (fb_fee feeBreakdown),
                          sresp_net = Some (fb_net feeBreakdown),
                          sresp_status = None,
                          sresp_evidenceHash = None,
                          sresp_proofOfAgency = None \<rparr>)
       else
         wbnd (pure_step (BigInt env (JStr (pr_maxAmountRequired
                 (req_paymentRequirements validatedRequest))))) (\<lambda>amount.
         let feeCalc = calculateFee amount in
         wbnd (on_chain (settlePaymentManaged env validatedRequest (fst feeCalc) (snd feeCalc))) (\<lambda>settlement.
         let agentId = req_agentId validatedRequest in
         wbnd (pure_step (if truthy agentId \<and> cfg_chaoschainEnabled (config env)
                          then linkAgentIdentity env agentId (sr_txHash settlement) validatedRequest amount
                          else Inr None)) (\<lambda>identity.
         pure_step (Inr \<lparr> sresp_success =
                            (sr_status settlement = Confirmed \<or> sr_status settlement = Pending),
                          sresp_error = None,
                          sresp_txHash = Some (sr_txHash settlement),
                          sresp_txHashFee = sr_txHashFee settlement,
                          sresp_networkId = Some network,
                          sresp_consensusProof =
                            ''0x'' @ slice (hex_of_string (sr_txHash settlement)) 0 64,
                          sresp_timestamp = stableTimestamp,
                          sresp_amount = Some (fb_amount feeBreakdown),
                          sresp_fee = Some (fb_fee feeBreakdown),
                          sresp_net = Some (fb_net feeBreakdown),
                          sresp_status = Some (sr_status settlement),
                          sresp_evidenceHash = map_option fst identity,
                          sresp_proofOfAgency = map_option snd identity \<rparr>)))))
     else
       wbnd (pure_step (if cfg_creMode (config env) = Simulate
                        then simulateSettle env validatedRequest
                        else forwardSettleToCRE env validatedRequest)) (\<lambda>baseResponse.
       pure_step (Inr (baseResponse \<lparr> sresp_timestamp := stableTimestamp,
                                       sresp_amount := Some (fb_amount feeBreakdown),
                                       sresp_fee := Some (fb_fee feeBreakdown),
                                       sresp_net := Some (fb_net feeBreakdown) \<rparr>)))))"

text \<open>
  The handlers: a cached body is the reply and nothing else runs; otherwise the response
  is stored before it is sent, and an exception becomes a 400 (an \<^verbatim>\<open>Error\<close>) or a 500
  with nothing stored.
\<close>

definition error_reply :: "env \<Rightarrow> string \<Rightarrow> exn \<Rightarrow> reply" where
  "error_reply env code error =
     (if instanceof_Error error then
        \<lparr> rp_code = 400,
          rp_body = ErrorBody \<lparr> er_error = message env error, er_code = code, er_details = Some error \<rparr> \<rparr>
      else
        \<lparr> rp_code = 500,
          rp_body = ErrorBody \<lparr> er_error = ''Internal server error'', er_code = ''INTERNAL_ERROR'',
                                er_details = None \<rparr> \<rparr>)"

definition verify_handler :: "env \<Rightarrow> http_request \<Rightarrow> world \<Rightarrow> reply \<times> world" where
  "verify_handler env hr w =
     (case tryServeCachedResponse env VerifyRoute hr w of
        Some cached \<Rightarrow> (\<lparr> rp_code = 200, rp_body = cached \<rparr>, w)
      | None \<Rightarrow>
          (case verify_process env hr w of
             (Inr response, w') \<Rightarrow>
               (\<lparr> rp_code = 200, rp_body = VerifyBody response \<rparr>,
                storeResponseForIdempotency env VerifyRoute hr (VerifyBody response) w')
           | (Inl error, w') \<Rightarrow> (error_reply env ''VERIFICATION_ERROR'' error, w')))"

definition settle_handler :: "env \<Rightarrow> http_request \<Rightarrow> world \<Rightarrow> reply \<times> world" where
  "settle_handler env hr w =
     (case tryServeCachedResponse env SettleRoute hr w of
        Some cached \<Rightarrow> (\<lparr> rp_code = 200, rp_body = cached \<rparr>, w)
      | None \<Rightarrow>
          (case settle_process env hr w of
             (Inr response, w') \<Rightarrow>
               (\<lparr> rp_code = 200, rp_body = SettleBody response \<rparr>,
                storeResponseForIdempotency env SettleRoute hr (SettleBody response) w')
           | (Inl error, w') \<Rightarrow> (error_reply env ''SETTLEMENT_ERROR'' error, w')))"

text \<open>The two routes, and the \<^verbatim>\<open>timestamp\<close> field of a reply body.\<close>

definition handle :: "route \<Rightarrow> env \<Rightarrow> http_request \<Rightarrow> world \<Rightarrow> reply \<times> world" where
  "handle rt = (case rt of VerifyRoute \<Rightarrow> verify_handler | SettleRoute \<Rightarrow> settle_handler)"

fun body_timestamp :: "body \<Rightarrow> int option" where
  "body_timestamp (VerifyBody response) = Some (vresp_timestamp response)"
| "body_timestamp (SettleBody response) = Some (sresp_timestamp response)"
| "body_timestamp (ErrorBody response) = None"

section \<open>A sample environment\<close>

text \<open>
  One concrete environment, on which the statements below are run: a chain that accepts
  every write and confirms it, a payer with five tokens, a decimal \<open>BigInt\<close>.
\<close>

definition sample_BigInt :: "jsval \<Rightarrow> exn + int" where
  "sample_BigInt x =
     (case x of
        JNum n \<Rightarrow> Inr n
      | JStr str \<Rightarrow> (case parseInt str (Some 10) of JNum n \<Rightarrow> Inr n | _ \<Rightarrow> Inl (Builtin SyntaxError))
      | JBool b \<Rightarrow> Inr (if b then 1 else 0)
      | JNaN \<Rightarrow> Inl (Builtin RangeError)
      | JObj kvs \<Rightarrow> Inl (Builtin SyntaxError)
      | _ \<Rightarrow> Inl (Builtin TypeError))"

definition sample_request :: "string \<Rightarrow> request" where
  "sample_request network =
     \<lparr> req_paymentHeader = JObj
         [(''from'', JStr ''0xPayer''), (''to'', JStr ''0xMerchant''), (''value'', JStr ''1000000''),
          (''nonce'', JStr ''0x01''), (''v'', JNum 27), (''r'', JStr ''0x0a''), (''s'', JStr ''0x0b'')],
       req_paymentRequirements =
         \<lparr> pr_scheme = ''exact'', pr_network = network, pr_asset = ''usdc'',
           pr_payTo = ''0xMerchant'', pr_maxAmountRequired = ''1000000'' \<rparr>,
       req_agentId = JUndefined \<rparr>"

definition sample_env :: env where
  "sample_env =
     \<lparr> engine_message = (\<lambda>k. ''runtime error''),
       decode_header = (\<lambda>h. Inl (Builtin SyntaxError)),
       BigInt = sample_BigInt,
       to_str = (\<lambda>x. case x of JStr str \<Rightarrow> Inr str | _ \<Rightarrow> Inr ''1700000000000''),
       js_less = (\<lambda>a b. case (a, b) of (JNum x, JNum y) \<Rightarrow> Inr (x < y) | _ \<Rightarrow> Inr False),
       date_now = (\<lambda>site. 1700000000000),
       random_suffix = ''k3x9q2a'',
       formatUnits = (\<lambda>a d. ''1''),
       privateKeyToAccount = Inr ''0xFacilitator'',
       treasury_address = JStr ''0xTreasury'',
       createPublicClient = (\<lambda>network. Inr ()),
       createWalletClient = (\<lambda>network. Inr ()),
       read_decimals = (\<lambda>token. Inr 6),
       read_balanceOf = (\<lambda>token owner. Inr 5000000),
       read_authorizationState = (\<lambda>token owner nonce. Inr False),
       read_allowance = (\<lambda>token owner spender. Inr 5000000),
       writeContract = (\<lambda>sent call. Inr (if sent = [] then ''0xaa'' else ''0xbb'')),
       waitForTransactionReceipt =
         (\<lambda>sent hash n. Inr \<lparr> receipt_status = Success, receipt_blockNumber = 100 \<rparr>),
       merchant_rejects_first = True,
       getTransactionReceipt =
         (\<lambda>network hash. Inr \<lparr> receipt_status = Success, receipt_blockNumber = 100 \<rparr>),
       getBlockNumber = (\<lambda>network hash. Inr 102),
       supabase_configured = True,
       select_succeeds = True,
       iso_now = (\<lambda>i. ''2023-11-14T22:13:20.000Z''),
       config = \<lparr> cfg_mode = Managed, cfg_creMode = Simulate, cfg_creWorkflowUrl = None,
                  cfg_chaoschainEnabled = False \<rparr>,
       validate_verify = (\<lambda>b. Inr (sample_request ''base-sepolia'')),
       validate_settle = (\<lambda>b. Inr (sample_request ''base-sepolia'')),
       parse_amount = (\<lambda>str. case parseInt str (Some 10) of JNum n \<Rightarrow> Inr (nat n) | _ \<Rightarrow> Inl (Builtin SyntaxError)),
       format_human = (\<lambda>x. ''1''),
       fee_symbol = ''USDC'',
       linkAgentIdentity = (\<lambda>agent hash req amount. Inr None),
       derive_fingerprint = (\<lambda>rt b. ''fp''),
       cache_ttl = 60000 \<rparr>"

text \<open>
  Variants of it: the fee transfer reverts; the fee write is refused; the wait for the fee
  receipt fails; every write is refused.
\<close>

definition fee_reverts :: env where
  "fee_reverts = sample_env \<lparr> waitForTransactionReceipt :=
      (\<lambda>sent hash n. Inr \<lparr> receipt_status = (if hash = ''0xbb'' then Reverted else Success),
                            receipt_blockNumber = 100 \<rparr>) \<rparr>"



definition fee_reverts_0g :: env where
  "fee_reverts_0g = fee_reverts \<lparr> validate_settle := (\<lambda>b. Inr (sample_request ''0g-mainnet'')) \<rparr>"

definition rpc_down :: env where
  "rpc_down = sample_env \<lparr> writeContract := (\<lambda>sent call. Inl (Error ''rpc down'')) \<rparr>"

text \<open>
  The client library's constructor: given neither a chain nor a URL (the fields of an
  inherited member of the chain table), it raises.
\<close>

definition strict_client :: env where
  "strict_client = sample_env \<lparr> createPublicClient :=
      (\<lambda>network. case CHAIN_CONFIG network of
                    Some (Own c) \<Rightarrow> Inr ()
                  | _ \<Rightarrow> Inl (Error ''No URL was provided to the Transport.'')) \<rparr>"

text \<open>A request, the world before it, and the responses the sample chain gives to it.\<close>

definition sample_http :: http_request where
  "sample_http = \<lparr> hr_body = JNull, hr_idempotencyKey = None \<rparr>"

definition fresh_world :: world where
  "fresh_world = \<lparr> w_sent = [], w_cache = Map.empty \<rparr>"

definition sample_transfer :: tx_call where
  "sample_transfer =
     TransferWithAuthorization (Own ''0x036CbD53842c5426634e7929541eC2318f3dCF7e'')
       (JStr ''0xPayer'') (JStr ''0xMerchant'') 1000000 0 1700003600 ''0x01''
       (JNum 27) (JStr ''0x0a'') (JStr ''0x0b'')"

definition sample_settle_response :: "settle_status \<Rightarrow> string option \<Rightarrow> settle_response" where
  "sample_settle_response st feeHash =
     \<lparr> sresp_success = (st = Confirmed \<or> st = Pending),
       sresp_error = None,
       sresp_txHash = Some ''0xaa'',
       sresp_txHashFee = feeHash,
       sresp_networkId = Some (if feeHash = None then ''base-sepolia'' else ''0g-mainnet''),
       sresp_consensusProof = ''0x'' @ slice (hex_of_string ''0xaa'') 0 64,
       sresp_timestamp = 1700000000000,
       sresp_amount = Some (fb_amount (feeBreakdown sample_env 1000000)),
       sresp_fee = Some (fb_fee (feeBreakdown sample_env 1000000)),
       sresp_net = Some (fb_net (feeBreakdown sample_env 1000000)),
       sresp_status = Some st,
       sresp_evidenceHash = None,
       sresp_proofOfAgency = None \<rparr>"

text \<open>A pending row of the transaction store, and a chain that is one block behind.\<close>

definition sample_row :: tx_record where
  "sample_row =
     \<lparr> tx_id = ''tx-1'', tx_hash = ''0xaa'', tx_hash_fee = None, tx_chain = ''base-sepolia'',
       tx_status = Pending, tx_confirmations = Finite 0, tx_confirmed_at = None \<rparr>"

definition block_101 :: env where
  "block_101 = sample_env \<lparr> getBlockNumber := (\<lambda>network hash. Inr 101) \<rparr>"

section \<open>Numbers\<close>

lemma bit_length_le: "m < 2 ^ k \<Longrightarrow> bit_length m \<le> k"
proof (induction k arbitrary: m)
  case 0
  then show ?case by simp
next
  case (Suc k)
  then have "m div 2 < 2 ^ k" by simp
  from Suc.IH[OF this] show ?case by simp
qed

lemma round_to_double_safe: "m < 2 ^ 53 \<Longrightarrow> round_to_double m = m"
  using bit_length_le[of m 53] by (simp add: round_to_double_def Let_def)

lemma Number_of_bigint_safe:
  assumes "\<bar>b\<bar> < 9007199254740992"
  shows "Number_of_bigint b = Finite b"
proof -
  have m: "nat \<bar>b\<bar> < 2 ^ 53" using assms by simp
  have "(2::nat) ^ 53 < 2 ^ 1024" by (rule power_strict_increasing) simp_all
  with m have "\<not> (2::nat) ^ 1024 \<le> nat \<bar>b\<bar>" by linarith
  then show ?thesis
    using assms by (auto simp: Number_of_bigint_def Let_def round_to_double_safe[OF m])
qed

section \<open>Facts about the sample environment\<close>

lemma sample_env_simps:
  "engine_message sample_env k = ''runtime error''"
  "BigInt sample_env = sample_BigInt"
  "date_now sample_env site = 1700000000000"
  "random_suffix sample_env = ''k3x9q2a''"
  "privateKeyToAccount sample_env = Inr ''0xFacilitator''"
  "treasury_address sample_env = JStr ''0xTreasury''"
  "createPublicClient sample_env n = Inr ()"
  "createWalletClient sample_env n = Inr ()"
  "read_decimals sample_env t = Inr 6"
  "read_balanceOf sample_env t a = Inr 5000000"
  "read_authorizationState sample_env t a nn = Inr False"
  "read_allowance sample_env t a b = Inr 5000000"
  "writeContract sample_env sent c = Inr (if sent = [] then ''0xaa'' else ''0xbb'')"
  "waitForTransactionReceipt sample_env sent h m = Inr \<lparr> receipt_status = Success, receipt_blockNumber = 100 \<rparr>"
  "getTransactionReceipt sample_env n h = Inr \<lparr> receipt_status = Success, receipt_blockNumber = 100 \<rparr>"
  "getBlockNumber sample_env n h = Inr 102"
  "supabase_configured sample_env"
  "select_succeeds sample_env"
  "iso_now sample_env i = ''2023-11-14T22:13:20.000Z''"
  "config sample_env = \<lparr> cfg_mode = Managed, cfg_creMode = Simulate, cfg_creWorkflowUrl = None,
                  cfg_chaoschainEnabled = False \<rparr>"
  "validate_verify sample_env b0 = Inr (sample_request ''base-sepolia'')"
  "validate_settle sample_env b0 = Inr (sample_request ''base-sepolia'')"
  "format_human sample_env x = ''1''"
  "fee_symbol sample_env = ''USDC''"
  "linkAgentIdentity sample_env ag h rq am = Inr None"
  "derive_fingerprint sample_env rt b0 = ''fp''"
  "cache_ttl sample_env = 60000"
  by (simp_all add: sample_env_def)

lemma sample_parse:
  "parsePaymentHeader env (JObj
         [(''from'', JStr ''0xPayer''), (''to'', JStr ''0xMerchant''), (''value'', JStr ''1000000''),
          (''nonce'', JStr ''0x01''), (''v'', JNum 27), (''r'', JStr ''0x0a''), (''s'', JStr ''0x0b'')]) =
     Inr \<lparr> auth_from = JStr ''0xPayer'', auth_to = JStr ''0xMerchant'', auth_value = JStr ''1000000'',
           auth_validAfter = JUndefined, auth_validBefore = JUndefined, auth_nonce = JStr ''0x01'',
           auth_signature = JUndefined, auth_v = JNum 27, auth_r = JStr ''0x0a'', auth_s = JStr ''0x0b'' \<rparr>"
  by (simp add: parsePaymentHeader_def normalizeHeader_def bnd_def getp_def opt_chain_def)

lemma sample_BigInt_amount: "sample_BigInt (JStr ''1000000'') = Inr 1000000"
  by (simp add: sample_BigInt_def parseInt_def Let_def is_ws_def digit_val_def digits_value_def
      Number_of_bigint_safe)

lemma sample_BigInt_num: "sample_BigInt (JNum k) = Inr k"
  by (simp add: sample_BigInt_def)

section \<open>Fee engine\<close>

text \<open>
  Claim C2. For every fee breakdown of an amount of base units (a natural number), the
  fee and the net amount add up to the amount exactly, the fee is
  \<open>floor(amount * feeBps / 10000)\<close>, and \<open>feeBps\<close> is 100.
\<close>

theorem feeBreakdown_invariant:
  "m_base (fb_fee (feeBreakdown env amount)) + m_base (fb_net (feeBreakdown env amount))
     = m_base (fb_amount (feeBreakdown env amount))
   \<and> m_base (fb_fee (feeBreakdown env amount))
     = m_base (fb_amount (feeBreakdown env amount)) * feeBps div 10000
   \<and> feeBps = 100"
  by (simp add: feeBreakdown_def Let_def feeBps_def)

section \<open>Signature decomposition\<close>

lemma of_char_hex_char:
  "n < 16 \<Longrightarrow> (of_char (hex_char n) :: nat) = (if n < 10 then 48 + n else 87 + n)"
  by (simp add: hex_char_def)

lemma digit_val_hex_char: "n < 16 \<Longrightarrow> digit_val (hex_char n) = Some n"
  by (simp add: digit_val_def of_char_hex_char Let_def)

lemma hex_char_neq:
  "n < 16 \<Longrightarrow> c \<in> {CHR ''x'', CHR ''X'', CHR ''+'', CHR ''-''} \<Longrightarrow> hex_char n \<noteq> c"
  using of_char_hex_char[of n] by (auto split: if_splits)

lemma hex_char_not_ws: "n < 16 \<Longrightarrow> \<not> is_ws (hex_char n)"
  using of_char_hex_char[of n] by (auto simp: is_ws_def split: if_splits)

lemma parseInt_two_hex:
  assumes "a < 16" "b < 16"
  shows "parseInt [hex_char a, hex_char b] (Some 16) = JNum (int (a * 16 + b))"
proof -
  have "Number_of_bigint (int (a * 16 + b)) = Finite (int (a * 16 + b))"
    using assms by (intro Number_of_bigint_safe) simp
  then show ?thesis
    using assms hex_char_neq[of a] hex_char_neq[of b] hex_char_not_ws[of a]
    by (simp add: parseInt_def Let_def digit_val_hex_char digits_value_def)
qed

lemma byte_lt: "unat (b :: 8 word) < 256"
  using unsigned_less[of b, where 'a = nat] by simp

lemma byte_nibbles: "unat (b :: 8 word) div 16 < 16 \<and> unat b mod 16 < 16"
  using byte_lt[of b] by simp

lemma parseInt_hex_of_byte: "parseInt (hex_of_byte v) (Some 16) = JNum (uint v)"
proof -
  have "parseInt (hex_of_byte v) (Some 16) = JNum (int (unat v))"
    using byte_nibbles[of v] by (simp add: hex_of_byte_def parseInt_two_hex)
  then show ?thesis by simp
qed

lemma length_hex_of_bytes: "length (hex_of_bytes bs) = 2 * length bs"
  by (induction bs) (simp_all add: hex_of_bytes_def hex_of_byte_def)

lemma startsWith_hex:
  "a < 16 \<Longrightarrow> b < 16 \<Longrightarrow> \<not> startsWith (hex_char a # hex_char b # rest) ''0x''"
  using hex_char_neq[of b "CHR ''x''"] by (simp add: startsWith_def)

lemma hex_of_bytes_Cons: "hex_of_bytes (b # bs) = hex_of_byte b @ hex_of_bytes bs"
  by (simp add: hex_of_bytes_def)

lemma slices_of_clean:
  assumes "length rs = 64" "length ss = 64"
  shows "slice (rs @ ss @ vs) 0 64 = rs"
    and "slice (rs @ ss @ vs) 64 128 = ss"
    and "slice (rs @ ss @ vs) 128 130 = take 2 vs"
  using assms by (simp_all add: slice_def)

lemma splitSignature_presplit:
  assumes "truthy (propOf (JObj kvs) ''v'')" "truthy (propOf (JObj kvs) ''r'')"
    "truthy (propOf (JObj kvs) ''s'')"
  shows "splitSignature (JObj kvs) =
           Inr \<lparr> sig_v = propOf (JObj kvs) ''v'', sig_r = propOf (JObj kvs) ''r'',
                 sig_s = propOf (JObj kvs) ''s'' \<rparr>"
  using assms by (simp add: splitSignature_def bnd_def getp_def)

text \<open>
  Claim C6. Splitting is a left inverse of combining: for 32-byte \<open>r\<close> and \<open>s\<close> and a
  byte \<open>v\<close>, the combined hexadecimal string, with or without its \<^verbatim>\<open>0x\<close> prefix, splits
  into \<open>r\<close> = bytes 0..32, \<open>s\<close> = bytes 32..64 and \<open>v\<close> = byte 64; and an object whose
  \<open>v\<close>, \<open>r\<close> and \<open>s\<close> are all present and non-zero (truthy) is returned as it is.
\<close>

theorem splitSignature_combine:
  assumes "length r = 32" and "length s = 32"
  shows "splitSignature (JStr (combine v r s)) =
           Inr \<lparr> sig_v = JNum (uint v), sig_r = JStr (''0x'' @ hex_of_bytes r),
                 sig_s = JStr (''0x'' @ hex_of_bytes s) \<rparr>
       \<and> splitSignature (JStr (drop 2 (combine v r s))) =
           Inr \<lparr> sig_v = JNum (uint v), sig_r = JStr (''0x'' @ hex_of_bytes r),
                 sig_s = JStr (''0x'' @ hex_of_bytes s) \<rparr>
       \<and> (truthy (propOf (JObj kvs) ''v'') \<and> truthy (propOf (JObj kvs) ''r'')
            \<and> truthy (propOf (JObj kvs) ''s'')
          \<longrightarrow> splitSignature (JObj kvs) =
                Inr \<lparr> sig_v = propOf (JObj kvs) ''v'', sig_r = propOf (JObj kvs) ''r'',
                      sig_s = propOf (JObj kvs) ''s'' \<rparr>)"
proof -
  let ?body = "hex_of_bytes r @ hex_of_bytes s @ hex_of_byte v"
  let ?res = "Inr \<lparr> sig_v = JNum (uint v), sig_r = JStr (''0x'' @ hex_of_bytes r),
                    sig_s = JStr (''0x'' @ hex_of_bytes s) \<rparr> :: exn + vrs"
  have lr: "length (hex_of_bytes r) = 64" and ls: "length (hex_of_bytes s) = 64"
    using assms by (simp_all add: length_hex_of_bytes)
  have v2: "take 2 (hex_of_byte v) = hex_of_byte v"
    by (simp add: hex_of_byte_def)
  obtain b bs where r: "r = b # bs"
    using assms(1) by (cases r) auto
  have nopre: "\<not> startsWith ?body ''0x''"
    using byte_nibbles[of b] by (simp add: r hex_of_bytes_Cons hex_of_byte_def startsWith_hex)
  have ne: "?body \<noteq> []"
    by (simp add: hex_of_byte_def)
  have with_prefix: "splitSignature (JStr (''0x'' @ ?body)) = ?res"
    by (simp add: splitSignature_def bnd_def startsWith_def slices_of_clean[OF lr ls] v2
        parseInt_hex_of_byte)
  have without_prefix: "splitSignature (JStr ?body) = ?res"
    using nopre ne
    by (simp add: splitSignature_def bnd_def slices_of_clean[OF lr ls] v2 parseInt_hex_of_byte)
  show ?thesis
    using with_prefix without_prefix splitSignature_presplit[of kvs]
    by (simp add: combine_def)
qed

theorem splitSignature_combine_witness:
  "splitSignature (JStr (combine 27 (replicate 32 171) (replicate 32 31))) =
     Inr \<lparr> sig_v = JNum 27, sig_r = JStr (''0x'' @ hex_of_bytes (replicate 32 171)),
           sig_s = JStr (''0x'' @ hex_of_bytes (replicate 32 31)) \<rparr>
   \<and> splitSignature (JObj [(''v'', JNum 27), (''r'', JStr ''0x0a''), (''s'', JStr ''0x0b'')]) =
     Inr \<lparr> sig_v = JNum 27, sig_r = JStr ''0x0a'', sig_s = JStr ''0x0b'' \<rparr>"
  using splitSignature_combine[of "replicate 32 171" "replicate 32 31" 27
          "[(''v'', JNum 27), (''r'', JStr ''0x0a''), (''s'', JStr ''0x0b'')]"]
  by simp

section \<open>EIP-3009 settlement\<close>

lemma sbnd_lift: "sbnd (lift m) f sent = (case m of Inl e \<Rightarrow> (Inl e, sent) | Inr x \<Rightarrow> f x sent)"
  by (simp add: sbnd_def lift_def split: sum.splits)

lemma sbnd_submit:
  "sbnd (submit env c) f sent =
     (case writeContract env sent c of Inl e \<Rightarrow> (Inl e, sent) | Inr h \<Rightarrow> f h (sent @ [c]))"
  by (simp add: sbnd_def submit_def split: sum.splits)

lemma sbnd_wait_receipt:
  "sbnd (wait_receipt env h n) f sent =
     (case waitForTransactionReceipt env sent h n of Inl e \<Rightarrow> (Inl e, sent) | Inr rc \<Rightarrow> f rc sent)"
  by (simp add: sbnd_def wait_receipt_def split: sum.splits)

lemma eip3009_try_cases:
  assumes "settleWithEIP3009_try env request feeAmount netAmount chainConfig sent = (res, sent')"
  shows "(sent' = sent \<and> (\<exists>e. res = Inl e))
       \<or> (\<exists>auth amount tok frm to va vb nn v r s.
             parsePaymentHeader env (req_paymentHeader request) = Inr auth
           \<and> BigInt env (auth_value auth) = Inr amount
           \<and> sent' = sent @ [TransferWithAuthorization tok frm to amount va vb nn v r s]
           \<and> (\<forall>result. res = Inr result \<longrightarrow> sr_txHashFee result = None))"
  using assms
  unfolding settleWithEIP3009_try_def Let_def sbnd_lift sbnd_submit sbnd_wait_receipt
  by (auto simp: lift_def split: sum.splits)

lemma eip3009_try_args:
  "settleWithEIP3009_try env request feeAmount netAmount chainConfig
     = settleWithEIP3009_try env request feeAmount' netAmount' chainConfig"
  by (simp add: settleWithEIP3009_try_def)

text \<open>
  Claim C1. Whatever a run of the EIP-3009 strategy does, it submits at most one contract
  write, a \<^verbatim>\<open>transferWithAuthorization\<close> whose value is \<open>BigInt\<close> of the \<open>value\<close> field of
  the normalized authorization; a result it returns has no fee transaction hash; and the
  run is the same for every \<open>feeAmount\<close> and \<open>netAmount\<close>.
\<close>

theorem settleWithEIP3009_signed_amount:
  assumes "settleWithEIP3009 env request feeAmount netAmount chainConfig sent = (res, sent')"
  shows "(sent' = sent
          \<or> (\<exists>auth amount tok frm to va vb nn v r s.
                parsePaymentHeader env (req_paymentHeader request) = Inr auth
              \<and> BigInt env (auth_value auth) = Inr amount
              \<and> sent' = sent @ [TransferWithAuthorization tok frm to amount va vb nn v r s]))
       \<and> (\<forall>result. res = Inr result \<longrightarrow> sr_txHashFee result = None \<and> sent' \<noteq> sent)
       \<and> settleWithEIP3009 env request feeAmount' netAmount' chainConfig sent = (res, sent')"
proof -
  have indep: "settleWithEIP3009 env request feeAmount' netAmount' chainConfig sent
             = settleWithEIP3009 env request feeAmount netAmount chainConfig sent"
    by (simp add: settleWithEIP3009_def
        eip3009_try_args[of env request feeAmount' netAmount' chainConfig feeAmount netAmount])
  show ?thesis
  proof (cases "settleWithEIP3009_try env request feeAmount netAmount chainConfig sent")
    case (Pair r0 s0)
    from eip3009_try_cases[OF Pair] assms Pair indep show ?thesis
      unfolding settleWithEIP3009_def Let_def sbnd_lift
      by (auto split: sum.splits)
  qed
qed

lemma sample_eip3009:
  "settleWithEIP3009 sample_env (sample_request ''base-sepolia'') 10000 990000 (Own \<lparr> cc_confirmations = 2 \<rparr>) []
     = (Inr \<lparr> sr_txHash = ''0xaa'', sr_txHashFee = None, sr_status = Confirmed, sr_confirmations = Some 2 \<rparr>,
        [TransferWithAuthorization (Own ''0x036CbD53842c5426634e7929541eC2318f3dCF7e'')
           (JStr ''0xPayer'') (JStr ''0xMerchant'') 1000000 0 1700003600 ''0x01''
           (JNum 27) (JStr ''0x0a'') (JStr ''0x0b'')])"
  unfolding settleWithEIP3009_def settleWithEIP3009_try_def Let_def sbnd_lift sbnd_submit sbnd_wait_receipt
  by (simp add: sample_env_simps sample_parse sample_request_def
        TOKEN_ADDRESSES_def index_object_def sample_BigInt_amount sample_BigInt_num startsWith_def
        lift_def)

theorem settleWithEIP3009_signed_amount_witness:
  "settleWithEIP3009 sample_env (sample_request ''base-sepolia'') 10000 990000 (Own \<lparr> cc_confirmations = 2 \<rparr>) []
     = (Inr \<lparr> sr_txHash = ''0xaa'', sr_txHashFee = None, sr_status = Confirmed, sr_confirmations = Some 2 \<rparr>,
        [TransferWithAuthorization (Own ''0x036CbD53842c5426634e7929541eC2318f3dCF7e'')
           (JStr ''0xPayer'') (JStr ''0xMerchant'') 1000000 0 1700003600 ''0x01''
           (JNum 27) (JStr ''0x0a'') (JStr ''0x0b'')])
   \<and> settleWithEIP3009 sample_env (sample_request ''base-sepolia'') 0 0 (Own \<lparr> cc_confirmations = 2 \<rparr>) []
     = (Inr \<lparr> sr_txHash = ''0xaa'', sr_txHashFee = None, sr_status = Confirmed, sr_confirmations = Some 2 \<rparr>,
        [TransferWithAuthorization (Own ''0x036CbD53842c5426634e7929541eC2318f3dCF7e'')
           (JStr ''0xPayer'') (JStr ''0xMerchant'') 1000000 0 1700003600 ''0x01''
           (JNum 27) (JStr ''0x0a'') (JStr ''0x0b'')])"
  using settleWithEIP3009_signed_amount[OF sample_eip3009, of 0 0] sample_eip3009
  by simp

section \<open>Payment-header normalizer\<close>

lemma parsePaymentHeader_object: "parsePaymentHeader env (JObj kvs) = normalizeHeader (JObj kvs)"
  by (simp add: parsePaymentHeader_def bnd_def)

text \<open>
  Claim C5. The normalizer recognizes the shapes of a parsed object in this order, by the
  structural tests \<^verbatim>\<open>payload.authorization\<close>, \<^verbatim>\<open>from && nonce\<close>, \<^verbatim>\<open>sender && nonce\<close>: an
  object with \<^verbatim>\<open>payload.authorization\<close> is unwrapped to the canonical record; else one with
  both \<^verbatim>\<open>from\<close> and \<^verbatim>\<open>nonce\<close> is accepted as the flat shape; else one with both
  \<^verbatim>\<open>sender\<close> and \<^verbatim>\<open>nonce\<close> is accepted with \<^verbatim>\<open>sender\<close> as \<^verbatim>\<open>from\<close>; every other object fails
  with the invalid-header error.
\<close>

theorem parsePaymentHeader_order:
  fixes kvs :: "(string \<times> jsval) list"
  defines "parsed \<equiv> JObj kvs"
  defines "authorization \<equiv> opt_chain (propOf parsed ''payload'') ''authorization''"
  shows "(truthy authorization \<longrightarrow>
            parsePaymentHeader env parsed =
              Inr \<lparr> auth_from = propOf authorization ''from'',
                    auth_to = propOf authorization ''to'',
                    auth_value = propOf authorization ''value'',
                    auth_validAfter = propOf authorization ''validAfter'',
                    auth_validBefore = propOf authorization ''validBefore'',
                    auth_nonce = propOf authorization ''nonce'',
                    auth_signature = propOf parsed ''signature'',
                    auth_v = propOf parsed ''v'', auth_r = propOf parsed ''r'', auth_s = propOf parsed ''s'' \<rparr>)
       \<and> (\<not> truthy authorization
            \<and> truthy (propOf parsed ''from'') \<and> truthy (propOf parsed ''nonce'') \<longrightarrow>
            parsePaymentHeader env parsed =
              Inr \<lparr> auth_from = propOf parsed ''from'',
                    auth_to = propOf parsed ''to'',
                    auth_value = propOf parsed ''value'',
                    auth_validAfter = propOf parsed ''validAfter'',
                    auth_validBefore = propOf parsed ''validBefore'',
                    auth_nonce = propOf parsed ''nonce'',
                    auth_signature = propOf parsed ''signature'',
                    auth_v = propOf parsed ''v'', auth_r = propOf parsed ''r'', auth_s = propOf parsed ''s'' \<rparr>)
       \<and> (\<not> truthy authorization
            \<and> \<not> truthy (propOf parsed ''from'')
            \<and> truthy (propOf parsed ''sender'') \<and> truthy (propOf parsed ''nonce'') \<longrightarrow>
            parsePaymentHeader env parsed =
              Inr \<lparr> auth_from = propOf parsed ''sender'',
                    auth_to = propOf parsed ''to'',
                    auth_value = propOf parsed ''value'',
                    auth_validAfter = propOf parsed ''validAfter'',
                    auth_validBefore = propOf parsed ''validBefore'',
                    auth_nonce = propOf parsed ''nonce'',
                    auth_signature = propOf parsed ''signature'',
                    auth_v = propOf parsed ''v'', auth_r = propOf parsed ''r'', auth_s = propOf parsed ''s'' \<rparr>)
       \<and> (\<not> truthy authorization
            \<and> (\<not> truthy (propOf parsed ''nonce'')
                \<or> (\<not> truthy (propOf parsed ''from'') \<and> \<not> truthy (propOf parsed ''sender''))) \<longrightarrow>
            parsePaymentHeader env parsed = Inl (Error ''Invalid payment header format''))"
  unfolding parsed_def authorization_def parsePaymentHeader_object
  by (simp add: normalizeHeader_def bnd_def getp_def Let_def)

theorem parsePaymentHeader_order_witness:
  "parsePaymentHeader sample_env (JObj [(''payload'', JObj [(''authorization'',
        JObj [(''from'', JStr ''0xPayer''), (''nonce'', JStr ''0x01'')])]), (''signature'', JStr ''0xsig'')]) =
     Inr \<lparr> auth_from = JStr ''0xPayer'', auth_to = JUndefined, auth_value = JUndefined,
           auth_validAfter = JUndefined, auth_validBefore = JUndefined, auth_nonce = JStr ''0x01'',
           auth_signature = JStr ''0xsig'', auth_v = JUndefined, auth_r = JUndefined, auth_s = JUndefined \<rparr>
   \<and> parsePaymentHeader sample_env (JObj [(''from'', JStr ''0xPayer''), (''nonce'', JStr ''0x01'')]) =
     Inr \<lparr> auth_from = JStr ''0xPayer'', auth_to = JUndefined, auth_value = JUndefined,
           auth_validAfter = JUndefined, auth_validBefore = JUndefined, auth_nonce = JStr ''0x01'',
           auth_signature = JUndefined, auth_v = JUndefined, auth_r = JUndefined, auth_s = JUndefined \<rparr>
   \<and> parsePaymentHeader sample_env (JObj [(''sender'', JStr ''0xPayer''), (''nonce'', JStr ''0x01'')]) =
     Inr \<lparr> auth_from = JStr ''0xPayer'', auth_to = JUndefined, auth_value = JUndefined,
           auth_validAfter = JUndefined, auth_validBefore = JUndefined, auth_nonce = JStr ''0x01'',
           auth_signature = JUndefined, auth_v = JUndefined, auth_r = JUndefined, auth_s = JUndefined \<rparr>
   \<and> parsePaymentHeader sample_env (JObj [(''sender'', JStr ''0xPayer'')])
       = Inl (Error ''Invalid payment header format'')"
  using parsePaymentHeader_order[of "[(''payload'', JObj [(''authorization'',
        JObj [(''from'', JStr ''0xPayer''), (''nonce'', JStr ''0x01'')])]), (''signature'', JStr ''0xsig'')]" sample_env]
    parsePaymentHeader_order[of "[(''from'', JStr ''0xPayer''), (''nonce'', JStr ''0x01'')]" sample_env]
    parsePaymentHeader_order[of "[(''sender'', JStr ''0xPayer''), (''nonce'', JStr ''0x01'')]" sample_env]
    parsePaymentHeader_order[of "[(''sender'', JStr ''0xPayer'')]" sample_env]
  by (simp add: opt_chain_def)

section \<open>Relayer settlement\<close>

lemma sample_parse_req:
  "parsePaymentHeader env (req_paymentHeader (sample_request n)) =
     Inr \<lparr> auth_from = JStr ''0xPayer'', auth_to = JStr ''0xMerchant'', auth_value = JStr ''1000000'',
           auth_validAfter = JUndefined, auth_validBefore = JUndefined, auth_nonce = JStr ''0x01'',
           auth_signature = JUndefined, auth_v = JNum 27, auth_r = JStr ''0x0a'', auth_s = JStr ''0x0b'' \<rparr>"
  using sample_parse[of env] by (simp add: sample_request_def)

lemma sample_request_simps:
  "pr_network (req_paymentRequirements (sample_request n)) = n"
  "pr_payTo (req_paymentRequirements (sample_request n)) = ''0xMerchant''"
  "pr_asset (req_paymentRequirements (sample_request n)) = ''usdc''"
  "pr_maxAmountRequired (req_paymentRequirements (sample_request n)) = ''1000000''"
  "req_agentId (sample_request n) = JUndefined"
  by (simp_all add: sample_request_def)

lemma token_0g:
  "TOKEN_ADDRESSES ''0g-mainnet'' = Some (Own ''0x1Cd0690fF9a693f5EF2dD976660a8dAFc81A109c'')"
  by (simp add: TOKEN_ADDRESSES_def index_object_def)

lemma relayer_try_unfold:
  assumes "parsePaymentHeader env (req_paymentHeader request) = Inr auth"
    and "TOKEN_ADDRESSES (pr_network (req_paymentRequirements request)) = Some tok"
  shows "settleWithRelayer_try env request feeAmount netAmount chainConfig sent =
     (case writeContract env sent
             (TransferFrom tok (auth_from auth) (JStr (pr_payTo (req_paymentRequirements request))) netAmount) of
        Inl e \<Rightarrow> (Inl e, sent)
      | Inr hashMerchant \<Rightarrow>
         (let sent1 = sent @ [TransferFrom tok (auth_from auth)
                                (JStr (pr_payTo (req_paymentRequirements request))) netAmount] in
          case writeContract env sent1 (TransferFrom tok (auth_from auth) (treasury_address env) feeAmount) of
            Inl e \<Rightarrow> (Inl e, sent1)
          | Inr hashFee \<Rightarrow>
             (let sent2 = sent1 @ [TransferFrom tok (auth_from auth) (treasury_address env) feeAmount] in
              case wait_both env hashMerchant hashFee (confirmations_of chainConfig) sent2 of
                (Inl e, s') \<Rightarrow> (Inl e, s')
              | (Inr (receiptMerchant, receiptFee), s') \<Rightarrow>
                  (Inr \<lparr> sr_txHash = hashMerchant, sr_txHashFee = Some hashFee,
                         sr_status = (if receipt_status receiptMerchant = Success
                                         \<and> receipt_status receiptFee = Success
                                      then Confirmed else PartialSettlement),
                         sr_confirmations = confirmations_of chainConfig \<rparr>, s'))))"
  using assms
  unfolding settleWithRelayer_try_def Let_def sbnd_lift sbnd_submit
  by (auto simp: sbnd_def lift_def split: sum.splits prod.splits)

lemma relayer_unfold:
  assumes "privateKeyToAccount env = Inr account"
    and "createWalletClient env (pr_network (req_paymentRequirements request)) = Inr wc"
    and "createPublicClient env (pr_network (req_paymentRequirements request)) = Inr pc"
  shows "settleWithRelayer env request feeAmount netAmount chainConfig sent =
     (case settleWithRelayer_try env request feeAmount netAmount chainConfig sent of
        (Inr res, sent') \<Rightarrow> (Inr res, sent')
      | (Inl error, sent') \<Rightarrow>
          (Inl (Error (''Relayer settlement failed: '' @
                 (if instanceof_Error error then message env error else ''Unknown error''))), sent'))"
  using assms unfolding settleWithRelayer_def Let_def sbnd_lift by simp

lemma wait_both_Inr:
  assumes "waitForTransactionReceipt env sent hm n = Inr rm"
    and "waitForTransactionReceipt env sent hf n = Inr rf"
  shows "wait_both env hm hf n sent = (Inr (rm, rf), sent)"
  using assms by (simp add: wait_both_def)


text \<open>
  Claim C7. When the relayer strategy obtains both receipts (the header parses, the token
  is configured, both \<^verbatim>\<open>transferFrom\<close> writes return a hash and both waits return a receipt),
  it returns \<open>confirmed\<close> if and only if both receipts are successes and
  \<open>partial_settlement\<close> otherwise, in both cases with the merchant transaction hash and the
  fee transaction hash.
\<close>

theorem settleWithRelayer_both_receipts:
  assumes "privateKeyToAccount env = Inr account"
    and "createWalletClient env (pr_network (req_paymentRequirements request)) = Inr wc"
    and "createPublicClient env (pr_network (req_paymentRequirements request)) = Inr pc"
    and "parsePaymentHeader env (req_paymentHeader request) = Inr auth"
    and "TOKEN_ADDRESSES (pr_network (req_paymentRequirements request)) = Some tok"
    and "toMerchant = TransferFrom tok (auth_from auth) (JStr (pr_payTo (req_paymentRequirements request))) netAmount"
    and "toTreasury = TransferFrom tok (auth_from auth) (treasury_address env) feeAmount"
    and "writeContract env sent toMerchant = Inr hashMerchant"
    and "writeContract env (sent @ [toMerchant]) toTreasury = Inr hashFee"
    and "waitForTransactionReceipt env (sent @ [toMerchant, toTreasury]) hashMerchant
           (confirmations_of chainConfig) = Inr receiptMerchant"
    and "waitForTransactionReceipt env (sent @ [toMerchant, toTreasury]) hashFee
           (confirmations_of chainConfig) = Inr receiptFee"
  shows "settleWithRelayer env request feeAmount netAmount chainConfig sent =
           (Inr \<lparr> sr_txHash = hashMerchant,
                  sr_txHashFee = Some hashFee,
                  sr_status = (if receipt_status receiptMerchant = Success
                                  \<and> receipt_status receiptFee = Success
                               then Confirmed else PartialSettlement),
                  sr_confirmations = confirmations_of chainConfig \<rparr>,
            sent @ [toMerchant, toTreasury])"
  using assms(6-11)
  by (simp add: relayer_unfold[OF assms(1-3)] relayer_try_unfold[OF assms(4,5)] wait_both_Inr)

theorem settleWithRelayer_both_receipts_witness:
  "settleWithRelayer sample_env (sample_request ''0g-mainnet'') 10000 990000 (Own \<lparr> cc_confirmations = 5 \<rparr>) [] =
     (Inr \<lparr> sr_txHash = ''0xaa'', sr_txHashFee = Some ''0xbb'', sr_status = Confirmed, sr_confirmations = Some 5 \<rparr>,
      [TransferFrom (Own ''0x1Cd0690fF9a693f5EF2dD976660a8dAFc81A109c'') (JStr ''0xPayer'') (JStr ''0xMerchant'') 990000,
       TransferFrom (Own ''0x1Cd0690fF9a693f5EF2dD976660a8dAFc81A109c'') (JStr ''0xPayer'') (JStr ''0xTreasury'') 10000])
   \<and> settleWithRelayer fee_reverts (sample_request ''0g-mainnet'') 10000 990000 (Own \<lparr> cc_confirmations = 5 \<rparr>) [] =
     (Inr \<lparr> sr_txHash = ''0xaa'', sr_txHashFee = Some ''0xbb'', sr_status = PartialSettlement, sr_confirmations = Some 5 \<rparr>,
      [TransferFrom (Own ''0x1Cd0690fF9a693f5EF2dD976660a8dAFc81A109c'') (JStr ''0xPayer'') (JStr ''0xMerchant'') 990000,
       TransferFrom (Own ''0x1Cd0690fF9a693f5EF2dD976660a8dAFc81A109c'') (JStr ''0xPayer'') (JStr ''0xTreasury'') 10000])"
  using settleWithRelayer_both_receipts[where env = sample_env and request = "sample_request ''0g-mainnet''"
          and feeAmount = 10000 and netAmount = 990000 and chainConfig = "Own \<lparr> cc_confirmations = 5 \<rparr>"
          and sent = "[]", OF _ _ _ sample_parse_req _ refl refl]
        settleWithRelayer_both_receipts[where env = fee_reverts and request = "sample_request ''0g-mainnet''"
          and feeAmount = 10000 and netAmount = 990000 and chainConfig = "Own \<lparr> cc_confirmations = 5 \<rparr>"
          and sent = "[]", OF _ _ _ sample_parse_req _ refl refl]
  by (simp add: sample_env_simps sample_request_simps token_0g fee_reverts_def)



section \<open>Verifier\<close>

lemma chain_base_sepolia: "CHAIN_CONFIG ''base-sepolia'' = Some (Own \<lparr> cc_confirmations = 2 \<rparr>)"
  by (simp add: CHAIN_CONFIG_def index_object_def)

lemma chain_toString: "CHAIN_CONFIG ''toString'' = Some Inherited"
  by (simp add: CHAIN_CONFIG_def index_object_def object_prototype_keys_def)

lemma token_base_sepolia:
  "TOKEN_ADDRESSES ''base-sepolia'' = Some (Own ''0x036CbD53842c5426634e7929541eC2318f3dCF7e'')"
  "TOKEN_INFO ''base-sepolia'' =
     Some (Own \<lparr> ti_symbol = ''USDC'', ti_decimals = 6, ti_supportsEIP3009 = True \<rparr>)"
  by (simp_all add: TOKEN_ADDRESSES_def TOKEN_INFO_def index_object_def)

text \<open>
  What the \<^verbatim>\<open>catch\<close> of \<^verbatim>\<open>verifyPaymentManaged\<close> covers: a network for which the chain table
  gives \<^verbatim>\<open>undefined\<close> is answered with a result record; whatever the \<^verbatim>\<open>try\<close> block raises
  becomes a result record; and an exception that leaves the function is one raised by the
  construction of the public client, which stands before the \<^verbatim>\<open>try\<close>.
\<close>

lemma verifyPaymentManaged_catch:
  fixes request :: request
  defines "network \<equiv> pr_network (req_paymentRequirements request)"
  shows "(CHAIN_CONFIG network = None \<longrightarrow>
            verifyPaymentManaged env request =
              Inr \<lparr> vr_isValid = False,
                    vr_invalidReason = Some (''Unsupported network: '' @ network),
                    vr_decimals = None \<rparr>)
       \<and> (\<forall>e. verifyPaymentManaged env request = Inl e \<longrightarrow>
              CHAIN_CONFIG network \<noteq> None \<and> createPublicClient env network = Inl e)
       \<and> (\<forall>error. CHAIN_CONFIG network \<noteq> None \<and> createPublicClient env network = Inr ()
              \<and> verify_try env request = Inl error \<longrightarrow>
              verifyPaymentManaged env request =
                Inr \<lparr> vr_isValid = False,
                      vr_invalidReason =
                        Some (if instanceof_Error error then message env error
                              else ''Verification failed''),
                      vr_decimals = None \<rparr>)"
  unfolding network_def verifyPaymentManaged_def Let_def bnd_def
  by (auto split: option.splits sum.splits)

lemma verifyPaymentManaged_inherited:
  assumes "CHAIN_CONFIG (pr_network (req_paymentRequirements request)) = Some Inherited"
    and "createPublicClient env (pr_network (req_paymentRequirements request)) = Inl e"
  shows "verifyPaymentManaged env request = Inl e"
  using assms by (simp add: verifyPaymentManaged_def Let_def bnd_def)

text \<open>
  Claim C4 says that \<^verbatim>\<open>verifyPaymentManaged\<close> returns a result record for every request and
  never throws. This version does throw: for the network name \<^verbatim>\<open>toString\<close> the lookup in
  \<open>CHAIN_CONFIG\<close> finds the inherited member, so the \<^verbatim>\<open>Unsupported network\<close> return is
  passed over and the public client is constructed, with no chain and no URL, before the
  \<^verbatim>\<open>try\<close>; what the constructor raises leaves the function.
\<close>

theorem verifyPaymentManaged_throws_before_try:
  "CHAIN_CONFIG ''toString'' = Some Inherited
   \<and> createPublicClient strict_client ''toString'' = Inl (Error ''No URL was provided to the Transport.'')
   \<and> verifyPaymentManaged strict_client (sample_request ''toString'')
       = Inl (Error ''No URL was provided to the Transport.'')"
  by (simp add: chain_toString verifyPaymentManaged_def Let_def bnd_def sample_request_simps
      strict_client_def)

section \<open>Request gateway\<close>

lemma wbnd_pure:
  "wbnd (pure_step m) f w = (case m of Inl e \<Rightarrow> (Inl e, w) | Inr x \<Rightarrow> f x w)"
  by (simp add: wbnd_def pure_step_def split: sum.splits)

lemma wbnd_on_chain:
  "wbnd (on_chain m) f w =
     (case m (w_sent w) of
        (Inl e, sent') \<Rightarrow> (Inl e, w \<lparr> w_sent := sent' \<rparr>)
      | (Inr x, sent') \<Rightarrow> f x (w \<lparr> w_sent := sent' \<rparr>))"
  by (simp add: wbnd_def on_chain_def split: sum.splits prod.splits)

lemma simulateSettle_status: "simulateSettle env request = Inr base \<Longrightarrow> sresp_status base = None"
  by (auto simp: simulateSettle_def Let_def bnd_def split: sum.splits)

lemma forwardSettleToCRE_raises: "forwardSettleToCRE env request \<noteq> Inr base"
  by (simp add: forwardSettleToCRE_def)

lemma forwardVerifyToCRE_raises: "forwardVerifyToCRE env request \<noteq> Inr base"
  by (simp add: forwardVerifyToCRE_def)

lemma settle_process_success:
  assumes "settle_process env hr w = (Inr response, w')"
    and "sresp_status response = Some st"
  shows "sresp_success response = (st = Confirmed \<or> st = Pending)"
  using assms
  unfolding settle_process_def Let_def wbnd_pure wbnd_on_chain
  by (auto simp: pure_step_def forwardSettleToCRE_raises dest: simulateSettle_status
           split: sum.splits prod.splits if_splits)

text \<open>
  Claim C3. A \<^verbatim>\<open>/settle\<close> response that the handler assembles after a settlement attempt
  (it carries the settlement status) has \<open>success\<close> true if and only if the status is
  \<open>confirmed\<close> or \<open>pending\<close>; for \<open>partial_settlement\<close> and \<open>failed\<close> it is false.
\<close>

theorem settle_success_iff_status:
  assumes "tryServeCachedResponse env SettleRoute hr w = None"
    and "settle_handler env hr w = (rp, w')"
    and "rp_body rp = SettleBody response"
    and "sresp_status response = Some st"
  shows "sresp_success response = (st = Confirmed \<or> st = Pending)
       \<and> (st = PartialSettlement \<or> st = Failed \<longrightarrow> \<not> sresp_success response)"
proof -
  obtain res w1 where p: "settle_process env hr w = (res, w1)"
    by (cases "settle_process env hr w")
  have "res = Inr response"
    using assms(1-3) p
    by (cases res) (auto simp: settle_handler_def error_reply_def split: if_splits)
  with p have "settle_process env hr w = (Inr response, w1)" by simp
  from settle_process_success[OF this assms(4)] show ?thesis by auto
qed

lemma verify_process_timestamp:
  assumes "verify_process env hr w = (Inr response, w')"
  shows "vresp_timestamp response = date_now env AtHandler"
  using assms
  unfolding verify_process_def Let_def wbnd_pure
  by (auto simp: pure_step_def split: sum.splits if_splits)

lemma settle_process_timestamp:
  assumes "settle_process env hr w = (Inr response, w')"
  shows "sresp_timestamp response = date_now env AtHandler"
  using assms
  unfolding settle_process_def Let_def wbnd_pure wbnd_on_chain
  by (auto simp: pure_step_def split: sum.splits prod.splits if_splits)

lemma error_reply_code: "rp_code (error_reply env code error) \<noteq> 200"
  by (simp add: error_reply_def)

lemma handle_stores:
  assumes "tryServeCachedResponse env rt hr w0 = None"
    and "handle rt env hr w0 = (rp, w1)"
    and "rp_code rp = 200"
  shows "rp = \<lparr> rp_code = 200, rp_body = rp_body rp \<rparr>
       \<and> w_cache w1 (fingerprint env rt hr) = Some (rp_body rp, date_now env AtCache)
       \<and> body_timestamp (rp_body rp) = Some (date_now env AtHandler)"
proof (cases rt)
  case VerifyRoute
  obtain res w' where p: "verify_process env hr w0 = (res, w')"
    by (cases "verify_process env hr w0")
  show ?thesis
  proof (cases res)
    case (Inl e)
    with assms p VerifyRoute error_reply_code[of env "''VERIFICATION_ERROR''" e] show ?thesis
      by (auto simp: handle_def verify_handler_def)
  next
    case (Inr response)
    with assms p VerifyRoute verify_process_timestamp[of env hr w0 response w'] show ?thesis
      by (auto simp: handle_def verify_handler_def storeResponseForIdempotency_def)
  qed
next
  case SettleRoute
  obtain res w' where p: "settle_process env hr w0 = (res, w')"
    by (cases "settle_process env hr w0")
  show ?thesis
  proof (cases res)
    case (Inl e)
    with assms p SettleRoute error_reply_code[of env "''SETTLEMENT_ERROR''" e] show ?thesis
      by (auto simp: handle_def settle_handler_def)
  next
    case (Inr response)
    with assms p SettleRoute settle_process_timestamp[of env hr w0 response w'] show ?thesis
      by (auto simp: handle_def settle_handler_def storeResponseForIdempotency_def)
  qed
qed

lemma handle_cached:
  assumes "tryServeCachedResponse env rt hr w = Some b"
  shows "handle rt env hr w = (\<lparr> rp_code = 200, rp_body = b \<rparr>, w)"
  using assms by (cases rt) (simp_all add: handle_def verify_handler_def settle_handler_def)

text \<open>
  Claim C9, amended. When a \<^verbatim>\<open>/verify\<close> or \<^verbatim>\<open>/settle\<close> request that missed the cache was
  answered with status 200, a later request with the same fingerprint, arriving within the
  TTL while the entry is still in the cache, gets the very same reply and leaves the world
  (the chain and the cache) as it was; the \<open>timestamp\<close> of that body is the
  \<open>stableTimestamp\<close> the first request chose.
\<close>

theorem idempotent_replay:
  assumes "tryServeCachedResponse env1 rt hr1 w0 = None"
    and "handle rt env1 hr1 w0 = (rp1, w1)"
    and "rp_code rp1 = 200"
    and "fingerprint env2 rt hr2 = fingerprint env1 rt hr1"
    and "w_cache w2 (fingerprint env1 rt hr1) = w_cache w1 (fingerprint env1 rt hr1)"
    and "date_now env2 AtCache < date_now env1 AtCache + cache_ttl env2"
  shows "handle rt env2 hr2 w2 = (rp1, w2)
       \<and> body_timestamp (rp_body rp1) = Some (date_now env1 AtHandler)"
proof -
  from handle_stores[OF assms(1-3)]
  have rp1: "rp1 = \<lparr> rp_code = 200, rp_body = rp_body rp1 \<rparr>"
    and stored: "w_cache w1 (fingerprint env1 rt hr1) = Some (rp_body rp1, date_now env1 AtCache)"
    and ts: "body_timestamp (rp_body rp1) = Some (date_now env1 AtHandler)"
    by simp_all
  have "tryServeCachedResponse env2 rt hr2 w2 = Some (rp_body rp1)"
    using assms(4-6) stored by (simp add: tryServeCachedResponse_def)
  from handle_cached[OF this] rp1 ts show ?thesis by simp
qed

lemma sample_env_simps2:
  "parse_amount sample_env ''1000000'' = Inr 1000000"
  "to_str sample_env (JNum k) = Inr ''1700000000000''"
  by (simp_all add: sample_env_def parseInt_def Let_def is_ws_def digit_val_def digits_value_def
      Number_of_bigint_safe)

lemma variant_simps:
  "config fee_reverts_0g = config sample_env"
  "validate_settle fee_reverts_0g b0 = Inr (sample_request ''0g-mainnet'')"
  "parse_amount fee_reverts_0g = parse_amount sample_env"
  "date_now fee_reverts_0g = date_now sample_env"
  "BigInt fee_reverts_0g = BigInt sample_env"
  "linkAgentIdentity fee_reverts_0g = linkAgentIdentity sample_env"
  "format_human fee_reverts_0g = format_human sample_env"
  "fee_symbol fee_reverts_0g = fee_symbol sample_env"
  "createPublicClient fee_reverts_0g = createPublicClient sample_env"
  "createWalletClient fee_reverts_0g = createWalletClient sample_env"
  "privateKeyToAccount fee_reverts_0g = privateKeyToAccount sample_env"
  "treasury_address fee_reverts_0g = treasury_address sample_env"
  "read_decimals fee_reverts_0g = read_decimals sample_env"
  "read_balanceOf fee_reverts_0g = read_balanceOf sample_env"
  "read_allowance fee_reverts_0g = read_allowance sample_env"
  "writeContract fee_reverts_0g = writeContract sample_env"
  "waitForTransactionReceipt fee_reverts_0g sent h m =
     Inr \<lparr> receipt_status = (if h = ''0xbb'' then Reverted else Success), receipt_blockNumber = 100 \<rparr>"
  "derive_fingerprint fee_reverts_0g = derive_fingerprint sample_env"
  "cache_ttl fee_reverts_0g = cache_ttl sample_env"
  "config rpc_down = config sample_env"
  "validate_settle rpc_down = validate_settle sample_env"
  "parse_amount rpc_down = parse_amount sample_env"
  "date_now rpc_down = date_now sample_env"
  "BigInt rpc_down = BigInt sample_env"
  "format_human rpc_down = format_human sample_env"
  "fee_symbol rpc_down = fee_symbol sample_env"
  "createPublicClient rpc_down = createPublicClient sample_env"
  "createWalletClient rpc_down = createWalletClient sample_env"
  "privateKeyToAccount rpc_down = privateKeyToAccount sample_env"
  "read_decimals rpc_down = read_decimals sample_env"
  "read_balanceOf rpc_down = read_balanceOf sample_env"
  "read_authorizationState rpc_down = read_authorizationState sample_env"
  "writeContract rpc_down sent c = Inl (Error ''rpc down'')"
  "derive_fingerprint rpc_down = derive_fingerprint sample_env"
  "cache_ttl rpc_down = cache_ttl sample_env"
  by (simp_all add: fee_reverts_0g_def fee_reverts_def rpc_down_def)

lemma chain_0g:
  "CHAIN_CONFIG ''0g-mainnet'' = Some (Own \<lparr> cc_confirmations = 5 \<rparr>)"
  "TOKEN_INFO ''0g-mainnet'' =
     Some (Own \<lparr> ti_symbol = ''W0G'', ti_decimals = 18, ti_supportsEIP3009 = False \<rparr>)"
  by (simp_all add: CHAIN_CONFIG_def TOKEN_INFO_def index_object_def)

lemma calculateFee_sample: "calculateFee 1000000 = (10000, 990000)"
  by (simp add: calculateFee_def feeBps_def)

lemma feeBreakdown_env:
  "format_human env' = format_human env \<Longrightarrow> fee_symbol env' = fee_symbol env \<Longrightarrow>
     feeBreakdown env' a = feeBreakdown env a"
  by (simp add: feeBreakdown_def)

lemma sample_verify:
  "verifyPaymentManaged sample_env (sample_request ''base-sepolia'') =
     Inr \<lparr> vr_isValid = True, vr_invalidReason = None, vr_decimals = Some 6 \<rparr>"
  by (simp add: verifyPaymentManaged_def verify_try_def Let_def bnd_def sample_parse_req
      sample_request_simps chain_base_sepolia token_base_sepolia sample_env_simps
      sample_BigInt_amount startsWith_def)

lemma rpc_down_verify:
  "verifyPaymentManaged rpc_down (sample_request ''base-sepolia'') =
     Inr \<lparr> vr_isValid = True, vr_invalidReason = None, vr_decimals = Some 6 \<rparr>"
  by (simp add: verifyPaymentManaged_def verify_try_def Let_def bnd_def sample_parse_req
      sample_request_simps chain_base_sepolia token_base_sepolia variant_simps sample_env_simps
      sample_BigInt_amount startsWith_def)

lemma fee_reverts_verify:
  "verifyPaymentManaged fee_reverts_0g (sample_request ''0g-mainnet'') =
     Inr \<lparr> vr_isValid = True, vr_invalidReason = None, vr_decimals = Some 6 \<rparr>"
  by (simp add: verifyPaymentManaged_def verify_try_def Let_def bnd_def sample_parse_req
      sample_request_simps chain_0g token_0g variant_simps sample_env_simps
      sample_BigInt_amount)

lemma sample_settlePayment:
  "settlePaymentManaged sample_env (sample_request ''base-sepolia'') 10000 990000 [] =
     (Inr \<lparr> sr_txHash = ''0xaa'', sr_txHashFee = None, sr_status = Confirmed, sr_confirmations = Some 2 \<rparr>,
      [sample_transfer])"
  using sample_eip3009
  by (simp add: settlePaymentManaged_def sample_request_simps chain_base_sepolia token_base_sepolia
      sample_transfer_def)

lemma rpc_down_settlePayment:
  "settlePaymentManaged rpc_down (sample_request ''base-sepolia'') 10000 990000 [] =
     (Inl (Error ''EIP-3009 settlement failed: rpc down''), [])"
  unfolding settlePaymentManaged_def settleWithEIP3009_def settleWithEIP3009_try_def Let_def
    sbnd_lift sbnd_submit sbnd_wait_receipt
  by (simp add: sample_request_simps chain_base_sepolia token_base_sepolia sample_parse_req
      variant_simps sample_env_simps sample_BigInt_amount sample_BigInt_num startsWith_def)

lemma fee_reverts_relayer:
  "settleWithRelayer fee_reverts_0g (sample_request ''0g-mainnet'') 10000 990000 (Own \<lparr> cc_confirmations = 5 \<rparr>) [] =
     (Inr \<lparr> sr_txHash = ''0xaa'', sr_txHashFee = Some ''0xbb'', sr_status = PartialSettlement,
            sr_confirmations = Some 5 \<rparr>,
      [TransferFrom (Own ''0x1Cd0690fF9a693f5EF2dD976660a8dAFc81A109c'') (JStr ''0xPayer'') (JStr ''0xMerchant'') 990000,
       TransferFrom (Own ''0x1Cd0690fF9a693f5EF2dD976660a8dAFc81A109c'') (JStr ''0xPayer'') (JStr ''0xTreasury'') 10000])"
proof -
  have a: "privateKeyToAccount fee_reverts_0g = Inr ''0xFacilitator''"
    and b: "createWalletClient fee_reverts_0g (pr_network (req_paymentRequirements (sample_request ''0g-mainnet''))) = Inr ()"
    and c: "createPublicClient fee_reverts_0g (pr_network (req_paymentRequirements (sample_request ''0g-mainnet''))) = Inr ()"
    and t: "TOKEN_ADDRESSES (pr_network (req_paymentRequirements (sample_request ''0g-mainnet'')))
              = Some (Own ''0x1Cd0690fF9a693f5EF2dD976660a8dAFc81A109c'')"
    by (simp_all add: variant_simps sample_env_simps sample_request_simps token_0g)
  show ?thesis
    by (simp add: relayer_unfold[OF a b c] relayer_try_unfold[OF sample_parse_req t]
        variant_simps sample_env_simps sample_request_simps wait_both_def)
qed

lemma fee_reverts_settlePayment:
  "settlePaymentManaged fee_reverts_0g (sample_request ''0g-mainnet'') 10000 990000 [] =
     (Inr \<lparr> sr_txHash = ''0xaa'', sr_txHashFee = Some ''0xbb'', sr_status = PartialSettlement,
            sr_confirmations = Some 5 \<rparr>,
      [TransferFrom (Own ''0x1Cd0690fF9a693f5EF2dD976660a8dAFc81A109c'') (JStr ''0xPayer'') (JStr ''0xMerchant'') 990000,
       TransferFrom (Own ''0x1Cd0690fF9a693f5EF2dD976660a8dAFc81A109c'') (JStr ''0xPayer'') (JStr ''0xTreasury'') 10000])"
  using fee_reverts_relayer
  by (simp add: settlePaymentManaged_def sample_request_simps chain_0g)

lemma fresh_miss: "tryServeCachedResponse env rt hr fresh_world = None"
  by (simp add: tryServeCachedResponse_def fresh_world_def)

lemma sample_fee:
  "computeFeeBreakdown sample_env ''1000000'' = Inr (feeBreakdown sample_env 1000000)"
  by (simp add: computeFeeBreakdown_def bnd_def sample_env_simps2)

lemma variant_fee:
  "computeFeeBreakdown rpc_down ''1000000'' = Inr (feeBreakdown sample_env 1000000)"
  "computeFeeBreakdown fee_reverts_0g ''1000000'' = Inr (feeBreakdown sample_env 1000000)"
  by (simp_all add: computeFeeBreakdown_def bnd_def variant_simps sample_env_simps2
      feeBreakdown_env[of rpc_down sample_env] feeBreakdown_env[of fee_reverts_0g sample_env])

lemma sample_settle_process:
  "settle_process sample_env sample_http fresh_world =
     (Inr (sample_settle_response Confirmed None), fresh_world \<lparr> w_sent := [sample_transfer] \<rparr>)"
  unfolding settle_process_def Let_def wbnd_pure wbnd_on_chain
  by (simp add: sample_env_simps sample_request_simps sample_fee sample_verify sample_BigInt_amount
      calculateFee_sample sample_settlePayment fresh_world_def pure_step_def
      sample_settle_response_def)

lemma rpc_down_settle_process:
  "settle_process rpc_down sample_http fresh_world =
     (Inl (Error ''EIP-3009 settlement failed: rpc down''), fresh_world)"
  unfolding settle_process_def Let_def wbnd_pure wbnd_on_chain
  by (simp add: variant_fee rpc_down_verify rpc_down_settlePayment variant_simps sample_env_simps
      sample_request_simps sample_BigInt_amount calculateFee_sample fresh_world_def pure_step_def)

lemma fee_reverts_settle_process:
  "settle_process fee_reverts_0g sample_http fresh_world =
     (Inr (sample_settle_response PartialSettlement (Some ''0xbb'')),
      fresh_world \<lparr> w_sent :=
        [TransferFrom (Own ''0x1Cd0690fF9a693f5EF2dD976660a8dAFc81A109c'') (JStr ''0xPayer'') (JStr ''0xMerchant'') 990000,
         TransferFrom (Own ''0x1Cd0690fF9a693f5EF2dD976660a8dAFc81A109c'') (JStr ''0xPayer'') (JStr ''0xTreasury'') 10000] \<rparr>)"
  unfolding settle_process_def Let_def wbnd_pure wbnd_on_chain
  by (simp add: variant_fee fee_reverts_verify fee_reverts_settlePayment variant_simps sample_env_simps
      sample_request_simps sample_BigInt_amount calculateFee_sample fresh_world_def pure_step_def
      sample_settle_response_def)

lemma sample_settle_handler:
  "settle_handler sample_env sample_http fresh_world =
     (\<lparr> rp_code = 200, rp_body = SettleBody (sample_settle_response Confirmed None) \<rparr>,
      storeResponseForIdempotency sample_env SettleRoute sample_http
        (SettleBody (sample_settle_response Confirmed None))
        (fresh_world \<lparr> w_sent := [sample_transfer] \<rparr>))"
  by (simp add: settle_handler_def fresh_miss sample_settle_process)

lemma fee_reverts_settle_handler:
  "fst (settle_handler fee_reverts_0g sample_http fresh_world) =
     \<lparr> rp_code = 200, rp_body = SettleBody (sample_settle_response PartialSettlement (Some ''0xbb'')) \<rparr>"
  by (simp add: settle_handler_def fresh_miss fee_reverts_settle_process)

theorem settle_success_iff_status_witness:
  "fst (settle_handler sample_env sample_http fresh_world) =
     \<lparr> rp_code = 200, rp_body = SettleBody (sample_settle_response Confirmed None) \<rparr>
   \<and> sresp_success (sample_settle_response Confirmed None)
   \<and> fst (settle_handler fee_reverts_0g sample_http fresh_world) =
     \<lparr> rp_code = 200, rp_body = SettleBody (sample_settle_response PartialSettlement (Some ''0xbb'')) \<rparr>
   \<and> \<not> sresp_success (sample_settle_response PartialSettlement (Some ''0xbb''))"
  using settle_success_iff_status[OF fresh_miss surjective_pairing,
          of sample_env sample_http "sample_settle_response Confirmed None" Confirmed]
        settle_success_iff_status[OF fresh_miss surjective_pairing,
          of fee_reverts_0g sample_http "sample_settle_response PartialSettlement (Some ''0xbb'')" PartialSettlement]
        sample_settle_handler fee_reverts_settle_handler
  by (simp add: sample_settle_response_def)

theorem idempotent_replay_witness:
  "handle SettleRoute sample_env sample_http (snd (handle SettleRoute sample_env sample_http fresh_world))
     = (\<lparr> rp_code = 200, rp_body = SettleBody (sample_settle_response Confirmed None) \<rparr>,
        snd (handle SettleRoute sample_env sample_http fresh_world))
   \<and> sresp_timestamp (sample_settle_response Confirmed None) = date_now sample_env AtHandler"
  using idempotent_replay[OF fresh_miss surjective_pairing, of SettleRoute sample_env sample_http
          sample_env sample_http "snd (handle SettleRoute sample_env sample_http fresh_world)"]
        sample_settle_handler
  by (simp add: handle_def sample_env_simps)

lemma rpc_down_settle_handler:
  "settle_handler rpc_down sample_http fresh_world =
     (\<lparr> rp_code = 400,
        rp_body = ErrorBody \<lparr> er_error = ''EIP-3009 settlement failed: rpc down'',
                              er_code = ''SETTLEMENT_ERROR'',
                              er_details = Some (Error ''EIP-3009 settlement failed: rpc down'') \<rparr> \<rparr>,
      fresh_world)"
  by (simp add: settle_handler_def fresh_miss rpc_down_settle_process error_reply_def)

lemma sample_settle_handler_sent:
  "w_sent (snd (settle_handler sample_env sample_http fresh_world)) = [sample_transfer]"
  by (simp add: sample_settle_handler storeResponseForIdempotency_def)

lemma sample_fingerprints:
  "fingerprint sample_env rt sample_http = fingerprint rpc_down rt sample_http"
  by (simp add: fingerprint_def variant_simps sample_http_def)

text \<open>
  Claim C9 as it is stated fails: a \<^verbatim>\<open>/settle\<close> request whose contract write is refused is
  answered 400 and nothing is stored; the same request again, within the TTL, is processed
  anew, gets another body and submits a transfer.
\<close>

theorem failed_request_not_replayed:
  "handle SettleRoute rpc_down sample_http fresh_world =
     (\<lparr> rp_code = 400,
        rp_body = ErrorBody \<lparr> er_error = ''EIP-3009 settlement failed: rpc down'',
                              er_code = ''SETTLEMENT_ERROR'',
                              er_details = Some (Error ''EIP-3009 settlement failed: rpc down'') \<rparr> \<rparr>,
      fresh_world)
   \<and> fingerprint sample_env SettleRoute sample_http = fingerprint rpc_down SettleRoute sample_http
   \<and> date_now sample_env AtCache < date_now rpc_down AtCache + cache_ttl sample_env
   \<and> fst (handle SettleRoute sample_env sample_http fresh_world) =
       \<lparr> rp_code = 200, rp_body = SettleBody (sample_settle_response Confirmed None) \<rparr>
   \<and> w_sent (snd (handle SettleRoute sample_env sample_http fresh_world)) = [sample_transfer]"
  by (simp add: handle_def rpc_down_settle_handler sample_fingerprints
      sample_settle_handler storeResponseForIdempotency_def variant_simps sample_env_simps)

section \<open>Finality confirmer\<close>

lemma find_update_other:
  assumes "\<And>row. tx_id (g row) = tx_id row" and "i \<noteq> j"
  shows "find (\<lambda>row. tx_id row = i) (update_eq_id j g store) = find (\<lambda>row. tx_id row = i) store"
  using assms by (induction store) (simp_all add: update_eq_id_def)

lemma find_update_same:
  assumes "\<And>row. tx_id (g row) = tx_id row"
  shows "find (\<lambda>row. tx_id row = i) (update_eq_id i g store)
       = map_option g (find (\<lambda>row. tx_id row = i) store)"
  using assms by (induction store) (simp_all add: update_eq_id_def)

lemma confirm_one_other:
  assumes "tx_id t \<noteq> i"
  shows "find (\<lambda>row. tx_id row = i) (confirm_one env t store) = find (\<lambda>row. tx_id row = i) store"
  using assms
  by (simp add: confirm_one_def find_update_other split: sum.splits)

lemma sweep_other:
  assumes "i \<notin> tx_id ` set pending"
  shows "find (\<lambda>row. tx_id row = i) (sweep env pending store) = find (\<lambda>row. tx_id row = i) store"
  using assms
proof (induction pending arbitrary: store)
  case Nil
  then show ?case by simp
next
  case (Cons t pending)
  then have "tx_id t \<noteq> i" and "i \<notin> tx_id ` set pending" by auto
  then show ?case
    using Cons.IH[of "confirm_one env t store"] by (simp add: confirm_one_other)
qed

lemma sweep_append:
  "sweep env (xs @ ys) store = sweep env ys (sweep env xs store)"
  by (induction xs arbitrary: store) simp_all

lemma find_member:
  assumes "distinct (map tx_id store)" and "tx \<in> set store"
  shows "find (\<lambda>row. tx_id row = tx_id tx) store = Some tx"
  using assms by (induction store) (auto simp: image_iff)

lemma distinct_select_pending:
  assumes "distinct (map tx_id store)"
  shows "distinct (map tx_id (select_pending store))"
  using assms
  by (simp add: select_pending_def take_map[symmetric] distinct_map_filter del: take_map)

lemma select_pending_subset: "set (select_pending store) \<subseteq> set store"
  using set_take_subset[of 50 "filter (\<lambda>row. tx_status row = Pending \<or> tx_status row = PartialSettlement) store"]
  by (auto simp: select_pending_def)

lemma confirm_one_processed:
  assumes "getConfirmations (tx_chain tx) = Inr required"
    and "CHAIN_CONFIG (tx_chain tx) \<noteq> None"
    and "createPublicClient env (tx_chain tx) = Inr ()"
    and "getTransactionReceipt env (tx_chain tx) (tx_hash tx) = Inr receipt"
    and "getBlockNumber env (tx_chain tx) (tx_hash tx) = Inr currentBlock"
  shows "confirm_one env tx store =
           update_eq_id (tx_id tx)
             (\<lambda>row. if number_ge (Number_of_bigint (currentBlock - receipt_blockNumber receipt)) required
                    then row \<lparr> tx_status := (if receipt_status receipt = Success then Confirmed else Failed),
                               tx_confirmations := Number_of_bigint (currentBlock - receipt_blockNumber receipt),
                               tx_confirmed_at := Some (iso_now env (tx_id tx)) \<rparr>
                    else row \<lparr> tx_confirmations := Number_of_bigint (currentBlock - receipt_blockNumber receipt) \<rparr>) store"
  using assms
  by (auto simp: confirm_one_def checkTransactionFinality_def bnd_def Let_def update_eq_id_def)

text \<open>
  Claim C8. In a sweep over a store with unique ids, for every non-terminal record among
  the (at most 50) selected ones whose required confirmations, receipt and current block
  are read, the confirmations count is the Number of \<open>currentBlock - receipt.blockNumber\<close>,
  which is that difference itself whenever it is a safe integer; if the count is at least
  the chain's required confirmations, the record is left in the store with status
  \<open>confirmed\<close> (receipt success) or \<open>failed\<close> (otherwise), the confirmations count and a
  \<open>confirmed_at\<close> timestamp; otherwise only its confirmations count has changed.
\<close>

theorem confirmer_sweep:
  assumes "supabase_configured env" and "select_succeeds env"
    and "distinct (map tx_id store)"
    and "tx \<in> set (select_pending store)"
    and "getConfirmations (tx_chain tx) = Inr required"
    and "CHAIN_CONFIG (tx_chain tx) \<noteq> None"
    and "createPublicClient env (tx_chain tx) = Inr ()"
    and "getTransactionReceipt env (tx_chain tx) (tx_hash tx) = Inr receipt"
    and "getBlockNumber env (tx_chain tx) (tx_hash tx) = Inr currentBlock"
    and "confirmations = Number_of_bigint (currentBlock - receipt_blockNumber receipt)"
  shows "find (\<lambda>row. tx_id row = tx_id tx) (confirmPendingTransactions env store) =
           Some (if number_ge confirmations required
                 then tx \<lparr> tx_status := (if receipt_status receipt = Success then Confirmed else Failed),
                          tx_confirmations := confirmations,
                          tx_confirmed_at := Some (iso_now env (tx_id tx)) \<rparr>
                 else tx \<lparr> tx_confirmations := confirmations \<rparr>)
       \<and> (\<bar>currentBlock - receipt_blockNumber receipt\<bar> < 2 ^ 53 \<longrightarrow>
            confirmations = Finite (currentBlock - receipt_blockNumber receipt)
            \<and> (\<forall>k. required = Some k \<longrightarrow>
                  number_ge confirmations required
                    = (int k \<le> currentBlock - receipt_blockNumber receipt)))"
proof -
  let ?P = "\<lambda>row. tx_id row = tx_id tx"
  let ?c = "Number_of_bigint (currentBlock - receipt_blockNumber receipt)"
  let ?g = "\<lambda>row. if number_ge ?c required
                    then row \<lparr> tx_status := (if receipt_status receipt = Success then Confirmed else Failed),
                               tx_confirmations := ?c,
                               tx_confirmed_at := Some (iso_now env (tx_id tx)) \<rparr>
                    else row \<lparr> tx_confirmations := ?c \<rparr>"
  obtain xs ys where split: "select_pending store = xs @ tx # ys"
    using assms(4) by (auto dest: split_list)
  have "distinct (map tx_id (xs @ tx # ys))"
    using distinct_select_pending[OF assms(3)] split by simp
  then have xs: "tx_id tx \<notin> tx_id ` set xs" and ys: "tx_id tx \<notin> tx_id ` set ys"
    by auto
  have "tx \<in> set store"
    using assms(4) select_pending_subset by auto
  then have start: "find ?P store = Some tx"
    using find_member[OF assms(3)] by simp
  have before: "find ?P (sweep env xs store) = Some tx"
    using sweep_other[OF xs] start by simp
  have ids: "\<And>row. tx_id (?g row) = tx_id row" by simp
  have at: "find ?P (confirm_one env tx (sweep env xs store)) = Some (?g tx)"
    using before
    by (simp only: confirm_one_processed[OF assms(5-9)] find_update_same[of ?g, OF ids] option.map)
  have "confirmPendingTransactions env store
      = sweep env ys (confirm_one env tx (sweep env xs store))"
    using assms(1,2) split by (simp add: confirmPendingTransactions_def sweep_append)
  then have "find ?P (confirmPendingTransactions env store) = Some (?g tx)"
    using sweep_other[OF ys] at by simp
  then have main: "find ?P (confirmPendingTransactions env store) =
           Some (if number_ge confirmations required
                 then tx \<lparr> tx_status := (if receipt_status receipt = Success then Confirmed else Failed),
                          tx_confirmations := confirmations,
                          tx_confirmed_at := Some (iso_now env (tx_id tx)) \<rparr>
                 else tx \<lparr> tx_confirmations := confirmations \<rparr>)"
    using assms(10) by simp
  have safe: "confirmations = Finite (currentBlock - receipt_blockNumber receipt)"
    if "\<bar>currentBlock - receipt_blockNumber receipt\<bar> < 2 ^ 53"
    using that assms(10) by (simp add: Number_of_bigint_safe)
  show ?thesis
    using main safe by auto
qed

lemma sample_row_simps:
  "tx_id sample_row = ''tx-1''" "tx_hash sample_row = ''0xaa''" "tx_chain sample_row = ''base-sepolia''"
  "select_pending [sample_row] = [sample_row]"
  "getConfirmations ''base-sepolia'' = Inr (Some 2)"
  by (simp_all add: sample_row_def select_pending_def getConfirmations_def getChainConfig_def
      CHAINS_def index_object_def bnd_def)

lemma block_101_simps:
  "supabase_configured block_101" "select_succeeds block_101"
  "createPublicClient block_101 n = Inr ()"
  "getTransactionReceipt block_101 n h = Inr \<lparr> receipt_status = Success, receipt_blockNumber = 100 \<rparr>"
  "getBlockNumber block_101 n h = Inr 101"
  by (simp_all add: block_101_def sample_env_simps)

theorem confirmer_sweep_witness:
  "find (\<lambda>row. tx_id row = ''tx-1'') (confirmPendingTransactions sample_env [sample_row]) =
     Some (sample_row \<lparr> tx_status := Confirmed, tx_confirmations := Finite 2,
                        tx_confirmed_at := Some ''2023-11-14T22:13:20.000Z'' \<rparr>)
   \<and> find (\<lambda>row. tx_id row = ''tx-1'') (confirmPendingTransactions block_101 [sample_row]) =
     Some (sample_row \<lparr> tx_confirmations := Finite 1 \<rparr>)"
  using confirmer_sweep[of sample_env "[sample_row]" sample_row "Some 2"
          "\<lparr> receipt_status = Success, receipt_blockNumber = 100 \<rparr>" 102 "Finite 2"]
        confirmer_sweep[of block_101 "[sample_row]" sample_row "Some 2"
          "\<lparr> receipt_status = Success, receipt_blockNumber = 100 \<rparr>" 101 "Finite 1"]
  by (simp add: sample_row_simps sample_env_simps block_101_simps chain_base_sepolia
      Number_of_bigint_safe)


end
